theory Spec2Isabelle
  imports Main "HOL-Library.AList" "HOL-Library.Word"
begin

section \<open>JavaScript values\<close>

text \<open>
  The values that reach \<open>FS.Collection\<close> through its \<open>options.filter\<close> argument are
  modelled as trees: the primitives, arrays and plain objects. An object is the list of
  its own properties in insertion order. An array carries its elements and, because a
  JavaScript array is an object, the named properties that have been assigned to it.
  Numbers are integers here (no \<open>NaN\<close>, no fractions). Values are trees: a
  configuration that shares one mutable array or object between two fields, or that is
  cyclic, is outside the model, and so are function and host objects.
\<close>

datatype jsval =
    JUndefined
  | JNull
  | JBool bool
  | JNum int
  | JStr string
  | JArr "jsval list" "(string \<times> jsval) list"
  | JObj "(string \<times> jsval) list"

datatype error =
    Error string
  | TypeError
  | AdmissionDenied
  | AuthorizationDenied

text \<open>The message of the only \<open>throw\<close> statement of the constructor (line 38).\<close>

abbreviation (input) ConfigurationError :: error where
  "ConfigurationError \<equiv>
     Error ''You must specify at least one store. Please consult the documentation.''"

text \<open>JavaScript truthiness: what \<open>!x\<close> negates.\<close>

fun truthy :: "jsval \<Rightarrow> bool" where
  "truthy JUndefined = False"
| "truthy JNull = False"
| "truthy (JBool b) = b"
| "truthy (JNum n) = (n \<noteq> 0)"
| "truthy (JStr s) = (s \<noteq> [])"
| "truthy (JArr es ps) = True"
| "truthy (JObj ps) = True"

text \<open>\<open>Match.test(x, Object)\<close>: \<open>x\<close> is a plain object.\<close>

fun isPlainObject :: "jsval \<Rightarrow> bool" where
  "isPlainObject (JObj ps) = True"
| "isPlainObject v = False"

text \<open>\<open>_.isArray(x)\<close>.\<close>

fun isArray :: "jsval \<Rightarrow> bool" where
  "isArray (JArr es ps) = True"
| "isArray v = False"

text \<open>\<open>typeof x === "number"\<close>.\<close>

fun isNumber :: "jsval \<Rightarrow> bool" where
  "isNumber (JNum n) = True"
| "isNumber v = False"

definition lookup :: "(string \<times> jsval) list \<Rightarrow> string \<Rightarrow> jsval" where
  "lookup ps k = (case map_of ps k of None \<Rightarrow> JUndefined | Some v \<Rightarrow> v)"

text \<open>
  Reading a property \<open>x.k\<close>. Reading from \<open>undefined\<close> or \<open>null\<close> throws a
  \<open>TypeError\<close>; a boolean, number or string has none of the properties the
  constructor reads (\<open>allow\<close>, \<open>deny\<close>, \<open>maxSize\<close>, \<open>extensions\<close>,
  \<open>contentTypes\<close>), so the read gives \<open>undefined\<close>.
\<close>

fun get_prop :: "jsval \<Rightarrow> string \<Rightarrow> error + jsval" where
  "get_prop JUndefined k = Inl TypeError"
| "get_prop JNull k = Inl TypeError"
| "get_prop (JObj ps) k = Inr (lookup ps k)"
| "get_prop (JArr es ps) k = Inr (lookup ps k)"
| "get_prop v k = Inr JUndefined"

text \<open>
  Assigning a property \<open>x.k = v\<close>; the result is \<open>x\<close> after the assignment. On
  \<open>undefined\<close> or \<open>null\<close> it throws; on a boolean, number or string the
  assignment is dropped (the file is not in strict mode).
\<close>

fun set_prop :: "jsval \<Rightarrow> string \<Rightarrow> jsval \<Rightarrow> error + jsval" where
  "set_prop JUndefined k v = Inl TypeError"
| "set_prop JNull k v = Inl TypeError"
| "set_prop (JObj ps) k v = Inr (JObj (AList.update k v ps))"
| "set_prop (JArr es ps) k v = Inr (JArr es (AList.update k v ps))"
| "set_prop x k v = Inr x"

text \<open>Sequencing of two steps, the first of which may throw.\<close>

definition bind :: "error + 'a \<Rightarrow> ('a \<Rightarrow> error + 'b) \<Rightarrow> error + 'b" where
  "bind m f = (case m of Inl e \<Rightarrow> Inl e | Inr v \<Rightarrow> f v)"

text \<open>
  A string is a list of characters with codes below 256, read as the code points
  \<open>U+0000\<close> to \<open>U+00FF\<close>; text with other code points is outside the model.
  \<open>String.prototype.toLowerCase\<close> on such text: the letters \<open>A\<close> to \<open>Z\<close> (codes
  65 to 90) and the capital letters of \<open>U+00C0\<close> to \<open>U+00DE\<close> (codes 192 to 222,
  without the multiplication sign 215) move up by 32 to their small forms, every other
  character stays.
\<close>

definition lower_char :: "char \<Rightarrow> char" where
  "lower_char c =
     (let n = (of_char c :: nat)
      in if (65 \<le> n \<and> n \<le> 90) \<or> (192 \<le> n \<and> n \<le> 222 \<and> n \<noteq> 215)
         then char_of (n + 32) else c)"

definition toLowerCase :: "string \<Rightarrow> string" where
  "toLowerCase s = map lower_char s"

section \<open>Normalisation of the filter option (lines 73 to 105)\<close>

text \<open>
  The loop \<open>for (i = 0; i < ln; i++) exts[i] = exts[i].toLowerCase()\<close>. Calling
  \<open>toLowerCase\<close> on anything but a string throws a \<open>TypeError\<close>.
\<close>

fun lower_all :: "jsval list \<Rightarrow> error + jsval list" where
  "lower_all [] = Inr []"
| "lower_all (JStr s # es) = bind (lower_all es) (\<lambda>r. Inr (JStr (toLowerCase s) # r))"
| "lower_all (v # es) = Inl TypeError"

text \<open>
  \<open>if (!f.k || !Match.test(f.k, Object)) f.k = {}\<close>, for \<open>k\<close> one of \<open>allow\<close>
  and \<open>deny\<close> (lines 74 to 79).
\<close>

definition default_object :: "string \<Rightarrow> jsval \<Rightarrow> error + jsval" where
  "default_object k f =
     bind (get_prop f k) (\<lambda>a.
       if \<not> truthy a \<or> \<not> isPlainObject a then set_prop f k (JObj []) else Inr f)"

text \<open>
  \<open>if (!f.maxSize || typeof f.maxSize !== "number") f.maxSize = null\<close> (lines 80 to
  82).
\<close>

definition default_maxSize :: "jsval \<Rightarrow> error + jsval" where
  "default_maxSize f =
     bind (get_prop f ''maxSize'') (\<lambda>m.
       if \<not> truthy m \<or> \<not> isNumber m then set_prop f ''maxSize'' JNull else Inr f)"

text \<open>
  Lines 83 to 90 and 94 to 101, for \<open>k\<close> one of \<open>allow\<close> and \<open>deny\<close>: a missing or
  non-array \<open>f.k.extensions\<close> becomes \<open>[]\<close>, an array has every element replaced
  by its lower-case form. The assignments go to the object \<open>f.k\<close>, which the tree
  model writes back into \<open>f\<close>.
\<close>

definition normalize_extensions :: "string \<Rightarrow> jsval \<Rightarrow> error + jsval" where
  "normalize_extensions k f =
     bind (get_prop f k) (\<lambda>a.
     bind (get_prop a ''extensions'') (\<lambda>e.
       if \<not> truthy e \<or> \<not> isArray e then
         bind (set_prop a ''extensions'' (JArr [] [])) (\<lambda>a'. set_prop f k a')
       else
         (case e of
            JArr es ps \<Rightarrow>
              bind (lower_all es) (\<lambda>es'.
              bind (set_prop a ''extensions'' (JArr es' ps)) (\<lambda>a'. set_prop f k a'))
          | _ \<Rightarrow> Inr f)))"

text \<open>Lines 91 to 93 and 102 to 104.\<close>

definition default_contentTypes :: "string \<Rightarrow> jsval \<Rightarrow> error + jsval" where
  "default_contentTypes k f =
     bind (get_prop f k) (\<lambda>a.
     bind (get_prop a ''contentTypes'') (\<lambda>c.
       if \<not> truthy c \<or> \<not> isArray c then
         bind (set_prop a ''contentTypes'' (JArr [] [])) (\<lambda>a'. set_prop f k a')
       else Inr f))"

definition normalize_filter :: "jsval \<Rightarrow> error + jsval" where
  "normalize_filter f =
     (if truthy f then
        bind (default_object ''allow'' f) (\<lambda>f1.
        bind (default_object ''deny'' f1) (\<lambda>f2.
        bind (default_maxSize f2) (\<lambda>f3.
        bind (normalize_extensions ''allow'' f3) (\<lambda>f4.
        bind (default_contentTypes ''allow'' f4) (\<lambda>f5.
        bind (normalize_extensions ''deny'' f5) (\<lambda>f6.
        default_contentTypes ''deny'' f6))))))
      else Inr f)"

section \<open>The constructor \<open>FS.Collection\<close>\<close>

text \<open>
  A storage adapter; the constructor and the handlers it registers read only its name.
\<close>

record store =
  sname :: string

text \<open>
  The \<open>options\<close> argument: each field is \<open>None\<close> when the caller's object has no
  such property. \<open>stores\<close> is an array of adapters and \<open>chunkSize\<close> a number, as
  the constructor's documentation types them.
\<close>

record options_arg =
  arg_filter :: "jsval option"
  arg_stores :: "store list option"
  arg_chunkSize :: "int option"

text \<open>\<open>self.options\<close>.\<close>

record options =
  opt_filter :: jsval
  opt_stores :: "store list"
  opt_chunkSize :: int

text \<open>The defaults of lines 20 to 24.\<close>

definition default_options :: options where
  "default_options = \<lparr> opt_filter = JNull, opt_stores = [], opt_chunkSize = 128 * 1024 \<rparr>"

text \<open>\<open>_.extend(self.options, options || {})\<close>: every supplied property overwrites.\<close>

definition extend_options :: "options \<Rightarrow> options_arg option \<Rightarrow> options" where
  "extend_options d arg =
     (case arg of
        None \<Rightarrow> d
      | Some a \<Rightarrow>
          \<lparr> opt_filter = (case arg_filter a of None \<Rightarrow> opt_filter d | Some v \<Rightarrow> v),
            opt_stores = (case arg_stores a of None \<Rightarrow> opt_stores d | Some v \<Rightarrow> v),
            opt_chunkSize = (case arg_chunkSize a of None \<Rightarrow> opt_chunkSize d | Some v \<Rightarrow> v) \<rparr>)"

text \<open>The packages and the side the constructor tests for.\<close>

record env =
  package_join :: bool
  package_insecure :: bool
  isServer :: bool
  has_FileWorker :: bool

datatype files_class = Join_Collection | Meteor_Collection

text \<open>
  The constructed object. \<open>c_files\<close> is the metadata collection \<open>self.files\<close>, by
  name and class; \<open>c_allow_all\<close> says that the allow rules returning \<open>true\<close> of
  lines 125 to 140 were added; \<open>c_synced\<close> lists the stores that were given the sync
  callbacks and \<open>c_observed\<close> says that the file worker observes the collection.
  The deny rules of lines 109 to 120 are the functions \<open>deny_insert\<close> and
  \<open>deny_update\<close> below.
\<close>

record collection =
  c_name :: string
  c_options :: options
  c_files :: "string \<times> files_class"
  c_allow_all :: bool
  c_synced :: "string list"
  c_observed :: bool

text \<open>
  What construction changes outside the object: the metadata collections created so
  far and the registry \<open>FS._collections\<close>.
\<close>

record runtime =
  created :: "(string \<times> files_class) list"
  fs_collections :: "(string \<times> collection) list"

text \<open>
  \<open>new FS.Collection(name, options)\<close>, in the order of the source: the options are
  extended (line 30); without a store the constructor throws (lines 37 to 39); the
  metadata collection \<open>name + '.files'\<close> is created (lines 52 to 58); the filter is
  normalised, which may throw (lines 73 to 105); the allow rules are added under the
  insecure package (lines 124 to 141); the object is registered under its name (line
  153); on the server every store is given the sync callbacks and the file worker
  observes the collection (lines 155 to 225). The result is the constructed object or
  the error thrown, with the runtime as the call leaves it. The transform function of
  \<open>self.files\<close> and the empty lists of \<open>self._validators\<close> have no part in what
  follows and are left out.
\<close>

definition FS_Collection ::
  "env \<Rightarrow> string \<Rightarrow> options_arg option \<Rightarrow> runtime \<Rightarrow> (error + collection) \<times> runtime" where
  "FS_Collection ev name arg rt =
     (let opts = extend_options default_options arg in
      if opt_stores opts = [] then (Inl ConfigurationError, rt)
      else
        let files = (name @ ''.files'',
                     if package_join ev then Join_Collection else Meteor_Collection);
            rt1 = rt\<lparr> created := created rt @ [files] \<rparr>
        in case normalize_filter (opt_filter opts) of
             Inl e \<Rightarrow> (Inl e, rt1)
           | Inr f \<Rightarrow>
               let self = \<lparr> c_name = name,
                            c_options = opts\<lparr> opt_filter := f \<rparr>,
                            c_files = files,
                            c_allow_all = package_insecure ev,
                            c_synced = (if isServer ev then map sname (opt_stores opts) else []),
                            c_observed = (isServer ev \<and> has_FileWorker ev) \<rparr>
               in (Inr self, rt1\<lparr> fs_collections := AList.update name self (fs_collections rt1) \<rparr>))"

section \<open>File records and the metadata collection\<close>

text \<open>
  The \<open>info\<close> object of a sync event, a copy descriptor (its \<open>_id\<close> is \<open>cid\<close>),
  and the \<open>fileInfo\<close> literal the handlers build: \<open>name\<close>, \<open>type\<close>,
  \<open>size\<close>, \<open>utime\<close> and \<open>copies\<close>, an object keyed by store name in insertion
  order. Names and types are strings, sizes and times integers, as the data model of
  the spec types them; a buffer is a list of bytes.
\<close>

type_synonym buffer = "8 word list"

record info =
  iname :: string
  itype :: string
  isize :: int
  iutime :: int

record copy =
  cid :: string
  cname :: string
  ctype :: string
  csize :: int
  cutime :: int

record file_info =
  fname :: string
  ftype :: string
  fsize :: int
  futime :: int
  copies :: "(string \<times> copy) list"

text \<open>A document of \<open>self.files\<close>: the metadata and the \<open>_id\<close> of the document.\<close>

record file_record = file_info +
  fid :: string

text \<open>
  An \<open>FS.File\<close> object: the metadata, the \<open>_id\<close> once it has one, and the content
  loaded into it.
\<close>

record fs_file = file_info +
  file_id :: "string option"
  data :: "buffer option"

text \<open>
  Modelled from the spec: \<open>new FS.File(fileInfo)\<close>, whose class is not in this file.
  The new object carries the given metadata, has no id and no content yet.
\<close>

definition FS_File :: "file_info \<Rightarrow> fs_file" where
  "FS_File i =
     \<lparr> fname = fname i, ftype = ftype i, fsize = fsize i, futime = futime i,
       copies = copies i, file_id = None, data = None \<rparr>"

text \<open>
  Modelled from the spec: \<open>fsFile.setDataFromBuffer(buffer, type)\<close>, not in this file:
  it "loads rawBytes into the record's materialized content". The spec gives the
  content-type argument no effect on the metadata.
\<close>

definition setDataFromBuffer :: "buffer \<Rightarrow> string \<Rightarrow> fs_file \<Rightarrow> fs_file" where
  "setDataFromBuffer b ty f = f\<lparr> data := Some b \<rparr>"

text \<open>
  The state behind \<open>self.files\<close>: its documents in natural order, and the content
  that inserts have handed to the file worker, by document id.
\<close>

record files_state =
  docs :: "file_record list"
  handed_to_worker :: "(string \<times> buffer) list"

text \<open>
  A stored document as the selector language sees it: an object with the fields
  \<open>_id\<close>, \<open>name\<close>, \<open>type\<close>, \<open>size\<close>, \<open>utime\<close> and \<open>copies\<close>, the latter
  an object with one descriptor per key.
\<close>

definition copy_value :: "copy \<Rightarrow> jsval" where
  "copy_value c =
     JObj [(''_id'', JStr (cid c)), (''name'', JStr (cname c)), (''type'', JStr (ctype c)),
           (''size'', JNum (csize c)), (''utime'', JNum (cutime c))]"

definition doc_value :: "file_record \<Rightarrow> jsval" where
  "doc_value r =
     JObj [(''_id'', JStr (fid r)), (''name'', JStr (fname r)), (''type'', JStr (ftype r)),
           (''size'', JNum (fsize r)), (''utime'', JNum (futime r)),
           (''copies'', JObj (map (\<lambda>(k, c). (k, copy_value c)) (copies r)))]"

text \<open>\<open>s.split(d)\<close>: the pieces of a string between the occurrences of \<open>d\<close>.\<close>

fun split_on :: "char \<Rightarrow> string \<Rightarrow> string list" where
  "split_on d [] = [[]]"
| "split_on d (c # cs) =
     (if c = d then [] # split_on d cs
      else (case split_on d cs of [] \<Rightarrow> [[c]] | w # ws \<Rightarrow> (c # w) # ws))"

text \<open>
  Following a path of keys into a value: each key is read from an object, and anything
  else (a missing key, a string, a number) has no keys and gives \<open>undefined\<close>.
\<close>

fun path_get :: "string list \<Rightarrow> jsval \<Rightarrow> jsval" where
  "path_get [] v = v"
| "path_get (k # ks) (JObj ps) = path_get ks (lookup ps k)"
| "path_get (k # ks) v = JUndefined"

text \<open>
  Modelled from the spec: the selector language of the metadata store, which is not in
  this file, "capable of dotted-path matching". The selectors used are \<open>{_id: i}\<close> and
  \<open>{p: v}\<close> for a key \<open>p\<close> and a string \<open>v\<close>: the key is split at its dots, the
  pieces are followed into the document, and the document matches when the value found
  is the string \<open>v\<close>. The handlers build \<open>p\<close> as
  \<open>'copies.' + store.name + '._id'\<close>; a dot in the store's name is a separator like
  any other.
\<close>

datatype selector = By_id string | By_path string string

fun matches :: "selector \<Rightarrow> file_record \<Rightarrow> bool" where
  "matches (By_id i) r = (fid r = i)"
| "matches (By_path p v) r = (path_get (split_on (CHR ''.'') p) (doc_value r) = JStr v)"

text \<open>
  Modelled from the spec: the modifiers of the metadata store, which is not in this
  file. A modifier \<open>{$set: {...}}\<close> over the top-level fields of a file record holds
  \<open>None\<close> for a field it does not mention; applying it overwrites the fields it
  mentions and keeps the others and the \<open>_id\<close>.
\<close>

record modifier =
  set_name :: "string option"
  set_type :: "string option"
  set_size :: "int option"
  set_utime :: "int option"
  set_copies :: "(string \<times> copy) list option"

text \<open>\<open>{$set: fileInfo}\<close>.\<close>

definition set_fileInfo :: "file_info \<Rightarrow> modifier" where
  "set_fileInfo i =
     \<lparr> set_name = Some (fname i), set_type = Some (ftype i), set_size = Some (fsize i),
       set_utime = Some (futime i), set_copies = Some (copies i) \<rparr>"

definition apply_modifier :: "modifier \<Rightarrow> file_record \<Rightarrow> file_record" where
  "apply_modifier m r =
     r\<lparr> fname := (case set_name m of None \<Rightarrow> fname r | Some v \<Rightarrow> v),
        ftype := (case set_type m of None \<Rightarrow> ftype r | Some v \<Rightarrow> v),
        fsize := (case set_size m of None \<Rightarrow> fsize r | Some v \<Rightarrow> v),
        futime := (case set_utime m of None \<Rightarrow> futime r | Some v \<Rightarrow> v),
        copies := (case set_copies m of None \<Rightarrow> copies r | Some v \<Rightarrow> v) \<rparr>"

text \<open>The names of the top-level fields a modifier touches.\<close>

definition modified_fields :: "modifier \<Rightarrow> string list" where
  "modified_fields m =
     (if set_name m = None then [] else [''name'']) @
     (if set_type m = None then [] else [''type'']) @
     (if set_size m = None then [] else [''size'']) @
     (if set_utime m = None then [] else [''utime'']) @
     (if set_copies m = None then [] else [''copies''])"

text \<open>
  Modelled from the spec: \<open>self.insert(fsFile)\<close> of \<open>FS.Collection.prototype\<close>, not
  in this file, as trusted (server) code runs it: it stores the file's metadata as a new
  document under the id the store assigns (\<open>newId\<close>) and hands the content to the file
  worker. The filter is not run on this path.
\<close>

definition collection_insert :: "string \<Rightarrow> fs_file \<Rightarrow> files_state \<Rightarrow> files_state" where
  "collection_insert newId f st =
     st\<lparr> docs := docs st @
            [\<lparr> fname = fname f, ftype = ftype f, fsize = fsize f, futime = futime f,
               copies = copies f, fid = newId \<rparr>],
         handed_to_worker := handed_to_worker st @
            (case data f of None \<Rightarrow> [] | Some b \<Rightarrow> [(newId, b)]) \<rparr>"

text \<open>
  Modelled from the spec: \<open>self.findOne(selector)\<close>, not in this file: the first
  document that matches, if any.
\<close>

definition findOne :: "selector \<Rightarrow> files_state \<Rightarrow> file_record option" where
  "findOne sel st = find (matches sel) (docs st)"

fun update_first :: "('a \<Rightarrow> bool) \<Rightarrow> ('a \<Rightarrow> 'a) \<Rightarrow> 'a list \<Rightarrow> 'a list" where
  "update_first P g [] = []"
| "update_first P g (x # xs) = (if P x then g x # xs else x # update_first P g xs)"

text \<open>
  Modelled from the spec: \<open>fsFile.update(modifier)\<close>, not in this file: the update of
  the one document whose \<open>_id\<close> is that of \<open>fsFile\<close> (the first of that id).
\<close>

definition file_update :: "file_record \<Rightarrow> modifier \<Rightarrow> files_state \<Rightarrow> files_state" where
  "file_update fsFile m st =
     st\<lparr> docs := update_first (matches (By_id (fid fsFile))) (apply_modifier m) (docs st) \<rparr>"

text \<open>
  Modelled from the spec: \<open>self.remove(selector)\<close>, not in this file: "deletes
  matching File Records", every document that matches.
\<close>

definition collection_remove :: "selector \<Rightarrow> files_state \<Rightarrow> files_state" where
  "collection_remove sel st = st\<lparr> docs := filter (\<lambda>r. \<not> matches sel r) (docs st) \<rparr>"

section \<open>The sync callbacks (lines 157 to 220)\<close>

text \<open>
  The three handlers given to \<open>store.defineSyncCallbacks\<close>, for one \<open>store\<close>. None of
  them has a branch that throws, so each maps the state of \<open>self.files\<close> to its next
  state. \<open>newId\<close> is the id the metadata store assigns to the inserted document.
\<close>

definition sync_insert ::
  "store \<Rightarrow> string \<Rightarrow> string \<Rightarrow> info \<Rightarrow> buffer \<Rightarrow> files_state \<Rightarrow> files_state" where
  "sync_insert store newId storeId nfo buf st =
     (let fileInfo = \<lparr> fname = iname nfo, ftype = itype nfo, fsize = isize nfo,
                       futime = iutime nfo, copies = [] \<rparr>;
          fileInfo = fileInfo\<lparr> copies :=
            AList.update (sname store)
              \<lparr> cid = storeId, cname = iname nfo, ctype = itype nfo, csize = isize nfo,
                cutime = iutime nfo \<rparr> (copies fileInfo) \<rparr>;
          fsFile = FS_File fileInfo;
          fsFile = setDataFromBuffer buf (itype nfo) fsFile
      in collection_insert newId fsFile st)"

definition sync_update :: "store \<Rightarrow> string \<Rightarrow> info \<Rightarrow> files_state \<Rightarrow> files_state" where
  "sync_update store storeId nfo st =
     (let selector = By_path (''copies.'' @ sname store @ ''._id'') storeId in
      case findOne selector st of
        None \<Rightarrow> st
      | Some fsFile \<Rightarrow>
          let fileInfo = \<lparr> fname = iname nfo, ftype = itype nfo, fsize = isize nfo,
                            futime = iutime nfo, copies = [] \<rparr>;
              fileInfo = fileInfo\<lparr> copies :=
                AList.update (sname store)
                  \<lparr> cid = storeId, cname = iname nfo, ctype = itype nfo, csize = isize nfo,
                    cutime = iutime nfo \<rparr> (copies fileInfo) \<rparr>
          in file_update fsFile (set_fileInfo fileInfo) st)"

definition sync_remove :: "store \<Rightarrow> string \<Rightarrow> files_state \<Rightarrow> files_state" where
  "sync_remove store storeId st =
     (let selector = By_path (''copies.'' @ sname store @ ''._id'') storeId in collection_remove selector st)"

section \<open>The filter engine and the deny rules (lines 109 to 120)\<close>

text \<open>
  Reading a property where a failing read counts as \<open>undefined\<close>, and the strings of
  an array: how the filter engine reads its rule lists from the filter option.
\<close>

definition jget :: "jsval \<Rightarrow> string \<Rightarrow> jsval" where
  "jget v k = (case get_prop v k of Inl e \<Rightarrow> JUndefined | Inr x \<Rightarrow> x)"

fun strings_of :: "jsval \<Rightarrow> string list" where
  "strings_of (JArr es ps) = concat (map (\<lambda>v. case v of JStr s \<Rightarrow> [s] | _ \<Rightarrow> []) es)"
| "strings_of v = []"

text \<open>
  Modelled from the spec: the "lowercase file extension" of a candidate, the text after
  the last dot of its name, in lower case; empty without a dot.
\<close>

definition extension_of :: "string \<Rightarrow> string" where
  "extension_of n =
     (let r = takeWhile (\<lambda>c. c \<noteq> CHR ''.'') (rev n)
      in if length r = length n then [] else toLowerCase (rev r))"

text \<open>
  Modelled from the spec: \<open>fsFile.fileIsAllowed()\<close>, the Filter Engine, which is not
  in this file. The rule set is the filter option of the file's collection. The steps
  are those of the spec: no rule set accepts; a denied extension or content type
  rejects; a size above \<open>maxSize\<close> rejects; a non-empty allow list rejects what is not
  on it. A content type matches a rule when it equals it.
\<close>

definition fileIsAllowed :: "jsval \<Rightarrow> 'a file_info_scheme \<Rightarrow> bool" where
  "fileIsAllowed flt f =
     (if \<not> truthy flt then True
      else
        let ext = extension_of (fname f);
            ct = ftype f;
            allow_ext = strings_of (jget (jget flt ''allow'') ''extensions'');
            allow_ct = strings_of (jget (jget flt ''allow'') ''contentTypes'');
            deny_ext = strings_of (jget (jget flt ''deny'') ''extensions'');
            deny_ct = strings_of (jget (jget flt ''deny'') ''contentTypes'')
        in if ext \<in> set deny_ext \<or> ct \<in> set deny_ct then False
           else if (case jget flt ''maxSize'' of JNum m \<Rightarrow> m < fsize f | _ \<Rightarrow> False) then False
           else if allow_ext \<noteq> [] \<and> ext \<notin> set allow_ext then False
           else if allow_ct \<noteq> [] \<and> ct \<notin> set allow_ct then False
           else True)"

text \<open>
  The deny rules of lines 110 to 118, for a collection whose filter option is \<open>flt\<close>.
  \<open>fsFile\<close> is the document the framework hands to the rule: for an insert the
  document to be inserted, for an update the document as it is stored.
\<close>

definition deny_insert :: "jsval \<Rightarrow> string option \<Rightarrow> 'a file_info_scheme \<Rightarrow> bool" where
  "deny_insert flt userId fsFile = (\<not> fileIsAllowed flt fsFile)"

definition deny_update ::
  "jsval \<Rightarrow> string option \<Rightarrow> 'a file_info_scheme \<Rightarrow> string list \<Rightarrow> modifier \<Rightarrow> bool" where
  "deny_update flt userId fsFile fieldNames m = (\<not> fileIsAllowed flt fsFile)"

text \<open>
  Modelled from the spec: an insert or update that starts in untrusted code, which
  the framework (not in this file) runs through the rules of the collection. A deny
  rule that returns true rejects it; so does the absence of an allow rule that grants
  it (\<open>app_allow\<close> stands for the allow rules the application registered); otherwise
  the mutation is committed.
\<close>

definition untrusted_insert ::
  "collection \<Rightarrow> bool \<Rightarrow> string option \<Rightarrow> string \<Rightarrow> fs_file \<Rightarrow> files_state \<Rightarrow> error + files_state" where
  "untrusted_insert self app_allow userId newId f st =
     (if deny_insert (opt_filter (c_options self)) userId f then Inl AdmissionDenied
      else if \<not> (c_allow_all self \<or> app_allow) then Inl AuthorizationDenied
      else Inr (collection_insert newId f st))"

definition untrusted_update ::
  "collection \<Rightarrow> bool \<Rightarrow> string option \<Rightarrow> string \<Rightarrow> modifier \<Rightarrow> files_state \<Rightarrow> error + files_state" where
  "untrusted_update self app_allow userId i m st =
     (case findOne (By_id i) st of
        None \<Rightarrow> Inr st
      | Some doc \<Rightarrow>
          if deny_update (opt_filter (c_options self)) userId doc (modified_fields m) m
          then Inl AdmissionDenied
          else if \<not> (c_allow_all self \<or> app_allow) then Inl AuthorizationDenied
          else Inr (file_update doc m st))"

section \<open>Example configuration\<close>

definition ex_env :: env where
  "ex_env = \<lparr> package_join = False, package_insecure = True, isServer = True,
              has_FileWorker = True \<rparr>"

definition ex_runtime :: runtime where
  "ex_runtime = \<lparr> created = [], fs_collections = [] \<rparr>"

definition ex_filter :: jsval where
  "ex_filter = JObj [(''allow'', JObj [(''extensions'', JArr [JStr ''PNG''] [])])]"

definition ex_arg :: options_arg where
  "ex_arg = \<lparr> arg_filter = Some ex_filter,
              arg_stores = Some [\<lparr> sname = ''s3'' \<rparr>, \<lparr> sname = ''local'' \<rparr>],
              arg_chunkSize = None \<rparr>"

definition ex_normalized :: jsval where
  "ex_normalized =
     JObj [(''allow'', JObj [(''extensions'', JArr [JStr ''png''] []),
                            (''contentTypes'', JArr [] [])]),
           (''deny'', JObj [(''extensions'', JArr [] []), (''contentTypes'', JArr [] [])]),
           (''maxSize'', JNull)]"

section \<open>Statement vocabulary and example state for the sync callbacks\<close>

text \<open>
  The copy descriptor of store \<open>s\<close> in record \<open>r\<close> is current: it exists, its id is
  \<open>i\<close> and its metadata equals the top-level metadata of \<open>r\<close>.
\<close>

definition copy_current :: "string \<Rightarrow> string \<Rightarrow> file_record \<Rightarrow> bool" where
  "copy_current s i r =
     (case map_of (copies r) s of
        None \<Rightarrow> False
      | Some c \<Rightarrow> cid c = i \<and> cname c = fname r \<and> ctype c = ftype r \<and> csize c = fsize r \<and>
                  cutime c = futime r)"

text \<open>
  Record \<open>r\<close> has, under the key \<open>s\<close> of its \<open>copies\<close>, a descriptor whose id is
  \<open>i\<close>.
\<close>

definition has_copy_id :: "string \<Rightarrow> string \<Rightarrow> file_record \<Rightarrow> bool" where
  "has_copy_id s i r = (case map_of (copies r) s of None \<Rightarrow> False | Some c \<Rightarrow> cid c = i)"

text \<open>The record both handlers write: the metadata of \<open>info\<close> and the one copy.\<close>

definition synced_record :: "store \<Rightarrow> string \<Rightarrow> info \<Rightarrow> string \<Rightarrow> file_record" where
  "synced_record store storeId nfo i =
     \<lparr> fname = iname nfo, ftype = itype nfo, fsize = isize nfo, futime = iutime nfo,
       copies = [(sname store, \<lparr> cid = storeId, cname = iname nfo, ctype = itype nfo,
                                 csize = isize nfo, cutime = iutime nfo \<rparr>)],
       fid = i \<rparr>"

definition ex_store :: store where
  "ex_store = \<lparr> sname = ''s3'' \<rparr>"

definition ex_info :: info where
  "ex_info = \<lparr> iname = ''b.png'', itype = ''image/png'', isize = 20, iutime = 7 \<rparr>"

definition ex_copy :: "string \<Rightarrow> copy" where
  "ex_copy i = \<lparr> cid = i, cname = ''a.png'', ctype = ''image/png'', csize = 10, cutime = 1 \<rparr>"

definition ex_record1 :: file_record where
  "ex_record1 = \<lparr> fname = ''a.png'', ftype = ''image/png'', fsize = 10, futime = 1,
       copies = [(''s3'', ex_copy ''k1''), (''local'', ex_copy ''p1'')], fid = ''id1'' \<rparr>"

definition ex_record2 :: file_record where
  "ex_record2 = \<lparr> fname = ''c.png'', ftype = ''image/png'', fsize = 3, futime = 2,
       copies = [(''local'', ex_copy ''p2'')], fid = ''id2'' \<rparr>"

definition ex_state :: files_state where
  "ex_state = \<lparr> docs = [ex_record2, ex_record1], handed_to_worker = [] \<rparr>"

section \<open>Vocabulary for the normalised filter\<close>

text \<open>
  The values that hold named properties, and the total forms of reading and assigning on
  them: \<open>jget\<close> above reads, \<open>put\<close> assigns (and leaves a primitive as it is).
\<close>

definition objlike :: "jsval \<Rightarrow> bool" where
  "objlike f = (isPlainObject f \<or> isArray f)"

fun put :: "jsval \<Rightarrow> string \<Rightarrow> jsval \<Rightarrow> jsval" where
  "put (JObj ps) k v = JObj (AList.update k v ps)"
| "put (JArr es ps) k v = JArr es (AList.update k v ps)"
| "put x k v = x"

fun has_key :: "jsval \<Rightarrow> string \<Rightarrow> bool" where
  "has_key (JObj ps) k = (map_of ps k \<noteq> None)"
| "has_key (JArr es ps) k = (map_of ps k \<noteq> None)"
| "has_key x k = False"

text \<open>
  One step of the normalisation on an object: the property \<open>k\<close> is kept when it
  satisfies \<open>c\<close> and replaced by \<open>h\<close> of itself otherwise.
\<close>

definition upd_if :: "(jsval \<Rightarrow> bool) \<Rightarrow> (jsval \<Rightarrow> jsval) \<Rightarrow> string \<Rightarrow> jsval \<Rightarrow> jsval" where
  "upd_if c h k g = (if c (jget g k) then g else put g k (h (jget g k)))"

text \<open>What an \<open>extensions\<close> property becomes, when the lower-casing does not throw.\<close>

definition norm_ext :: "jsval \<Rightarrow> error + jsval" where
  "norm_ext e =
     (case e of JArr es ps \<Rightarrow> bind (lower_all es) (\<lambda>es'. Inr (JArr es' ps))
      | _ \<Rightarrow> Inr (JArr [] []))"

text \<open>
  The filter after the seven steps, for an object or array \<open>f\<close> whose two
  \<open>extensions\<close> properties have become \<open>ea\<close> and \<open>ed\<close>.
\<close>

definition normal_form :: "jsval \<Rightarrow> jsval \<Rightarrow> jsval \<Rightarrow> jsval" where
  "normal_form f ea ed =
     (let f1 = upd_if isPlainObject (\<lambda>a. JObj []) ''allow'' f;
          f2 = upd_if isPlainObject (\<lambda>a. JObj []) ''deny'' f1;
          f3 = upd_if (\<lambda>m. truthy m \<and> isNumber m) (\<lambda>m. JNull) ''maxSize'' f2;
          f4 = upd_if (\<lambda>a. False) (\<lambda>a. put a ''extensions'' ea) ''allow'' f3;
          f5 = upd_if (\<lambda>a. isArray (jget a ''contentTypes''))
                 (\<lambda>a. put a ''contentTypes'' (JArr [] [])) ''allow'' f4;
          f6 = upd_if (\<lambda>a. False) (\<lambda>a. put a ''extensions'' ed) ''deny'' f5
      in upd_if (\<lambda>a. isArray (jget a ''contentTypes''))
                 (\<lambda>a. put a ''contentTypes'' (JArr [] [])) ''deny'' f6)"

text \<open>
  \<open>f.k\<close> as the later steps find it: itself when it is a plain object, the empty
  object that replaced it otherwise.
\<close>

definition side :: "jsval \<Rightarrow> string \<Rightarrow> jsval" where
  "side f k = (if isPlainObject (jget f k) then jget f k else JObj [])"

definition side_result :: "jsval \<Rightarrow> jsval \<Rightarrow> jsval" where
  "side_result a e =
     (if isArray (jget (put a ''extensions'' e) ''contentTypes'') then put a ''extensions'' e
      else put (put a ''extensions'' e) ''contentTypes'' (JArr [] []))"

text \<open>
  The permissive defaults: an \<open>extensions\<close> array with every string in lower case (in
  place, so length and order stay), the empty list for anything that is not an array; a
  \<open>contentTypes\<close> array as it is, the empty list otherwise.
\<close>

fun lower_value :: "jsval \<Rightarrow> jsval" where
  "lower_value (JStr s) = JStr (toLowerCase s)"
| "lower_value v = v"

fun isString :: "jsval \<Rightarrow> bool" where
  "isString (JStr s) = True"
| "isString v = False"

definition lowered :: "jsval \<Rightarrow> jsval" where
  "lowered e = (case e of JArr es ps \<Rightarrow> JArr (map lower_value es) ps | _ \<Rightarrow> JArr [] [])"

definition listed :: "jsval \<Rightarrow> jsval" where
  "listed c = (if isArray c then c else JArr [] [])"

definition strings_only :: "jsval \<Rightarrow> bool" where
  "strings_only e = (case e of JArr es ps \<Rightarrow> list_all isString es | _ \<Rightarrow> True)"

text \<open>
  Letter case, stated without \<open>toLowerCase\<close>: the pairs of a capital letter and its
  small form, for the 26 letters of the alphabet and for the 30 accented capitals of
  \<open>U+00C0\<close> to \<open>U+00DE\<close>. Two characters are the same letter when they are equal
  or form such a pair; two strings are case variants when they are the same letter at
  every position; a string is in lower case when it holds no capital letter.
\<close>

definition letter_pairs :: "(char \<times> char) list" where
  "letter_pairs =
     zip ''ABCDEFGHIJKLMNOPQRSTUVWXYZ'' ''abcdefghijklmnopqrstuvwxyz'' @
     zip [CHR 0xC0, CHR 0xC1, CHR 0xC2, CHR 0xC3, CHR 0xC4, CHR 0xC5, CHR 0xC6, CHR 0xC7,
          CHR 0xC8, CHR 0xC9, CHR 0xCA, CHR 0xCB, CHR 0xCC, CHR 0xCD, CHR 0xCE, CHR 0xCF,
          CHR 0xD0, CHR 0xD1, CHR 0xD2, CHR 0xD3, CHR 0xD4, CHR 0xD5, CHR 0xD6, CHR 0xD8,
          CHR 0xD9, CHR 0xDA, CHR 0xDB, CHR 0xDC, CHR 0xDD, CHR 0xDE]
         [CHR 0xE0, CHR 0xE1, CHR 0xE2, CHR 0xE3, CHR 0xE4, CHR 0xE5, CHR 0xE6, CHR 0xE7,
          CHR 0xE8, CHR 0xE9, CHR 0xEA, CHR 0xEB, CHR 0xEC, CHR 0xED, CHR 0xEE, CHR 0xEF,
          CHR 0xF0, CHR 0xF1, CHR 0xF2, CHR 0xF3, CHR 0xF4, CHR 0xF5, CHR 0xF6, CHR 0xF8,
          CHR 0xF9, CHR 0xFA, CHR 0xFB, CHR 0xFC, CHR 0xFD, CHR 0xFE]"

definition is_upper :: "char \<Rightarrow> bool" where
  "is_upper c = (c \<in> set (map fst letter_pairs))"

definition same_letter :: "char \<Rightarrow> char \<Rightarrow> bool" where
  "same_letter c d = (c = d \<or> (c, d) \<in> set letter_pairs \<or> (d, c) \<in> set letter_pairs)"

definition case_variant :: "string \<Rightarrow> string \<Rightarrow> bool" where
  "case_variant s t = list_all2 same_letter s t"

definition no_upper :: "string \<Rightarrow> bool" where
  "no_upper s = list_all (\<lambda>c. \<not> is_upper c) s"

text \<open>The codes of the capital letters, as \<open>toLowerCase\<close> tests them.\<close>

definition capital_code :: "nat \<Rightarrow> bool" where
  "capital_code n = ((65 \<le> n \<and> n \<le> 90) \<or> (192 \<le> n \<and> n \<le> 222 \<and> n \<noteq> 215))"

text \<open>
  \<open>v'\<close> is the string \<open>v\<close> in lower case: a case variant of it without a capital
  letter. \<open>e'\<close> is the normalised form of an \<open>extensions\<close> property \<open>e\<close>: for an
  array the array of the lower-case forms, position by position, and the empty list for
  anything else.
\<close>

fun lowercase_of :: "jsval \<Rightarrow> jsval \<Rightarrow> bool" where
  "lowercase_of (JStr s) (JStr t) = (case_variant s t \<and> no_upper t)"
| "lowercase_of v w = False"

definition lowered_from :: "jsval \<Rightarrow> jsval \<Rightarrow> bool" where
  "lowered_from e e' =
     (case e of
        JArr es ps \<Rightarrow>
          (case e' of JArr es' ps' \<Rightarrow> ps' = ps \<and> list_all2 lowercase_of es es' | _ \<Rightarrow> False)
      | _ \<Rightarrow> e' = JArr [] [])"

text \<open>
  \<open>a'\<close> is the normalised form of the plain object \<open>a\<close> (an \<open>allow\<close> or
  \<open>deny\<close>), and \<open>g\<close> the normalised form of the filter \<open>f\<close>: every sub-field
  is the default or the kept value, and nothing else has changed.
\<close>

definition normalized_side :: "jsval \<Rightarrow> jsval \<Rightarrow> bool" where
  "normalized_side a a' =
     (isPlainObject a' \<and>
      lowered_from (jget a ''extensions'') (jget a' ''extensions'') \<and>
      jget a' ''contentTypes'' = listed (jget a ''contentTypes'') \<and>
      (\<forall>k. k \<noteq> ''extensions'' \<and> k \<noteq> ''contentTypes'' \<longrightarrow> jget a' k = jget a k))"

definition normalized_from :: "jsval \<Rightarrow> jsval \<Rightarrow> bool" where
  "normalized_from f g =
     (normalized_side (side f ''allow'') (jget g ''allow'') \<and>
      normalized_side (side f ''deny'') (jget g ''deny'') \<and>
      jget g ''maxSize'' =
        (if truthy (jget f ''maxSize'') \<and> isNumber (jget f ''maxSize'')
         then jget f ''maxSize'' else JNull) \<and>
      (\<forall>k. k \<noteq> ''allow'' \<and> k \<noteq> ''deny'' \<and> k \<noteq> ''maxSize'' \<longrightarrow> jget g k = jget f k))"

text \<open>
  A supplied filter that construction accepts: a falsy value, or an object or array whose
  \<open>allow.extensions\<close> and \<open>deny.extensions\<close>, where \<open>allow\<close> or \<open>deny\<close> is a plain
  object and the property an array, hold strings only.
\<close>

definition well_shaped :: "jsval \<Rightarrow> bool" where
  "well_shaped f =
     (\<not> truthy f \<or>
      (objlike f \<and> strings_only (jget (side f ''allow'') ''extensions'') \<and>
       strings_only (jget (side f ''deny'') ''extensions'')))"






text \<open>What construction with at least one store returns, given the normalised filter.\<close>

definition constructed :: "env \<Rightarrow> string \<Rightarrow> options_arg \<Rightarrow> jsval \<Rightarrow> collection" where
  "constructed ev name a g =
     \<lparr> c_name = name,
       c_options = \<lparr> opt_filter = g,
         opt_stores = (case arg_stores a of None \<Rightarrow> [] | Some v \<Rightarrow> v),
         opt_chunkSize = (case arg_chunkSize a of None \<Rightarrow> 131072 | Some v \<Rightarrow> v) \<rparr>,
       c_files = (name @ ''.files'',
                  if package_join ev then Join_Collection else Meteor_Collection),
       c_allow_all = package_insecure ev,
       c_synced = (if isServer ev
                   then map sname (case arg_stores a of None \<Rightarrow> [] | Some v \<Rightarrow> v) else []),
       c_observed = (isServer ev \<and> has_FileWorker ev) \<rparr>"

section \<open>Example filters, collection and untrusted requests\<close>


definition ex_filter_number :: jsval where
  "ex_filter_number = JObj [(''allow'', JObj [(''extensions'', JArr [JNum 5] [])])]"

definition ex_collection :: collection where
  "ex_collection =
     \<lparr> c_name = ''images'',
       c_options = \<lparr> opt_filter = ex_normalized,
                     opt_stores = [\<lparr> sname = ''s3'' \<rparr>, \<lparr> sname = ''local'' \<rparr>],
                     opt_chunkSize = 131072 \<rparr>,
       c_files = (''images.files'', Meteor_Collection),
       c_allow_all = True,
       c_synced = [''s3'', ''local''],
       c_observed = True \<rparr>"

definition ex_rename :: modifier where
  "ex_rename = \<lparr> set_name = Some ''a.exe'', set_type = None, set_size = None,
                 set_utime = None, set_copies = None \<rparr>"

definition ex_exe :: fs_file where
  "ex_exe = FS_File \<lparr> fname = ''a.exe'', ftype = ''image/png'', fsize = 10, futime = 1, copies = [] \<rparr>"

section \<open>Basic facts\<close>

lemma bind_Inl: "bind m f = Inl e \<Longrightarrow> m = Inl e \<or> (\<exists>v. m = Inr v \<and> f v = Inl e)"
  by (cases m) (simp_all add: bind_def)

lemma bind_Inr [simp]: "bind (Inr v) f = f v"
  by (simp add: bind_def)

lemma bind_Inl_left [simp]: "bind (Inl e) f = Inl e"
  by (simp add: bind_def)

lemma lookup_Nil [simp]: "lookup [] k = JUndefined"
  by (simp add: lookup_def)

lemma lookup_Cons [simp]: "lookup ((k', v) # ps) k = (if k' = k then v else lookup ps k)"
  by (simp add: lookup_def)

lemma lookup_update [simp]:
  "lookup (AList.update k v ps) k' = (if k = k' then v else lookup ps k')"
  by (simp add: lookup_def update_conv')

lemma lower_char_idem: "lower_char (lower_char c) = lower_char c"
  by (auto simp: lower_char_def Let_def)

lemma toLowerCase_idem: "toLowerCase (toLowerCase s) = toLowerCase s"
  by (simp add: toLowerCase_def lower_char_idem)

lemma toLowerCase_PNG: "toLowerCase ''PNG'' = ''png''"
  by code_simp

text \<open>The only error the normalisation of the filter can raise is a \<open>TypeError\<close>.\<close>

lemma get_prop_error: "get_prop v k = Inl e \<Longrightarrow> e = TypeError"
  by (cases v) auto

lemma set_prop_error: "set_prop v k x = Inl e \<Longrightarrow> e = TypeError"
  by (cases v) auto

lemma lower_all_error: "lower_all es = Inl e \<Longrightarrow> e = TypeError"
  by (induction es rule: lower_all.induct) (auto dest!: bind_Inl)

lemma default_object_error: "default_object k f = Inl e \<Longrightarrow> e = TypeError"
  by (auto simp: default_object_def dest!: bind_Inl dest: get_prop_error set_prop_error
      split: if_splits)

lemma default_maxSize_error: "default_maxSize f = Inl e \<Longrightarrow> e = TypeError"
  by (auto simp: default_maxSize_def dest!: bind_Inl dest: get_prop_error set_prop_error
      split: if_splits)

lemma normalize_extensions_error: "normalize_extensions k f = Inl e \<Longrightarrow> e = TypeError"
  by (auto simp: normalize_extensions_def dest!: bind_Inl
      dest: get_prop_error set_prop_error lower_all_error split: if_splits jsval.splits)

lemma default_contentTypes_error: "default_contentTypes k f = Inl e \<Longrightarrow> e = TypeError"
  by (auto simp: default_contentTypes_def dest!: bind_Inl
      dest: get_prop_error set_prop_error split: if_splits)

lemma normalize_filter_error: "normalize_filter f = Inl e \<Longrightarrow> e = TypeError"
  by (auto simp: normalize_filter_def dest!: bind_Inl
      dest: default_object_error default_maxSize_error normalize_extensions_error
        default_contentTypes_error split: if_splits)

lemma normalize_ex_filter: "normalize_filter ex_filter = Inr ex_normalized"
  by (simp add: ex_filter_def ex_normalized_def normalize_filter_def default_object_def
      default_maxSize_def normalize_extensions_def default_contentTypes_def toLowerCase_PNG)

lemma ex_constructed: "\<exists>c. fst (FS_Collection ex_env ''images'' (Some ex_arg) ex_runtime) = Inr c"
  by (simp add: FS_Collection_def normalize_ex_filter ex_arg_def extend_options_def
      default_options_def Let_def)

section \<open>Construction: stores and chunk size\<close>

lemma extend_options_stores:
  "opt_stores (extend_options default_options arg) =
     (case arg of None \<Rightarrow> [] | Some a \<Rightarrow> (case arg_stores a of None \<Rightarrow> [] | Some v \<Rightarrow> v))"
  by (simp add: extend_options_def default_options_def split: option.splits)

lemma extend_options_chunkSize:
  "opt_chunkSize (extend_options default_options arg) =
     (case arg of None \<Rightarrow> 131072
      | Some a \<Rightarrow> (case arg_chunkSize a of None \<Rightarrow> 131072 | Some v \<Rightarrow> v))"
  by (simp add: extend_options_def default_options_def split: option.splits)

text \<open>
  C2. Construction without options, without a \<open>stores\<close> option or with an empty
  \<open>stores\<close> array throws the configuration error, and leaves the created collections
  and the registry as they were; with at least one store, whatever construction returns
  is not that error.
\<close>

theorem construct_requires_store:
  "FS_Collection ev name None rt = (Inl ConfigurationError, rt) \<and>
   (arg_stores a = None \<or> arg_stores a = Some [] \<longrightarrow>
      FS_Collection ev name (Some a) rt = (Inl ConfigurationError, rt)) \<and>
   (arg_stores b = Some (s # ss) \<longrightarrow>
      fst (FS_Collection ev name (Some b) rt) \<noteq> Inl ConfigurationError)"
proof (intro conjI impI)
  show "FS_Collection ev name None rt = (Inl ConfigurationError, rt)"
    by (simp add: FS_Collection_def extend_options_stores)
next
  assume "arg_stores a = None \<or> arg_stores a = Some []"
  then show "FS_Collection ev name (Some a) rt = (Inl ConfigurationError, rt)"
    by (auto simp: FS_Collection_def extend_options_stores)
next
  assume b: "arg_stores b = Some (s # ss)"
  show "fst (FS_Collection ev name (Some b) rt) \<noteq> Inl ConfigurationError"
  proof (cases "normalize_filter (opt_filter (extend_options default_options (Some b)))")
    case (Inl e)
    then have "e = TypeError" by (rule normalize_filter_error)
    with Inl b show ?thesis
      by (simp add: FS_Collection_def extend_options_stores Let_def)
  next
    case (Inr f)
    with b show ?thesis
      by (simp add: FS_Collection_def extend_options_stores Let_def)
  qed
qed

theorem construct_requires_store_witness:
  "(arg_stores (ex_arg\<lparr> arg_stores := Some [] \<rparr>) = None \<or>
    arg_stores (ex_arg\<lparr> arg_stores := Some [] \<rparr>) = Some []) \<and>
   FS_Collection ex_env ''images'' (Some (ex_arg\<lparr> arg_stores := Some [] \<rparr>)) ex_runtime
     = (Inl ConfigurationError, ex_runtime) \<and>
   arg_stores ex_arg = Some [\<lparr> sname = ''s3'' \<rparr>, \<lparr> sname = ''local'' \<rparr>] \<and>
   fst (FS_Collection ex_env ''images'' (Some ex_arg) ex_runtime) \<noteq> Inl ConfigurationError"
  using construct_requires_store [of ex_env "''images''" ex_runtime
      "ex_arg\<lparr> arg_stores := Some [] \<rparr>" ex_arg "\<lparr> sname = ''s3'' \<rparr>" "[\<lparr> sname = ''local'' \<rparr>]"]
  by (simp add: ex_arg_def)

text \<open>
  C10. A collection that has been constructed has the chunk size 131072 when the
  options supply none, and the supplied chunk size otherwise.
\<close>

theorem chunkSize_default_or_supplied:
  "fst (FS_Collection ev name arg rt) = Inr c \<Longrightarrow>
   opt_chunkSize (c_options c) =
     (case arg of None \<Rightarrow> 131072
      | Some a \<Rightarrow> (case arg_chunkSize a of None \<Rightarrow> 131072 | Some v \<Rightarrow> v))"
  by (auto simp: FS_Collection_def Let_def extend_options_chunkSize[symmetric]
      split: if_splits sum.splits)

theorem chunkSize_default_or_supplied_witness:
  "\<exists>c. fst (FS_Collection ex_env ''images'' (Some ex_arg) ex_runtime) = Inr c \<and>
       opt_chunkSize (c_options c) = 131072"
proof -
  obtain c where c: "fst (FS_Collection ex_env ''images'' (Some ex_arg) ex_runtime) = Inr c"
    using ex_constructed by blast
  from chunkSize_default_or_supplied [OF c] have "opt_chunkSize (c_options c) = 131072"
    by (simp add: ex_arg_def)
  with c show ?thesis by blast
qed

section \<open>The sync callbacks: what each handler does to the collection\<close>

lemma split_on_not_Nil [simp]: "split_on d s \<noteq> []"
  by (induction s) (auto split: list.splits)

lemma split_on_no_separator: "d \<notin> set a \<Longrightarrow> split_on d a = [a]"
  by (induction a) auto

lemma split_on_prefix: "d \<notin> set a \<Longrightarrow> split_on d (a @ d # rest) = a # split_on d rest"
  by (induction a) auto

lemma split_copies_path:
  assumes "CHR ''.'' \<notin> set n"
  shows "split_on (CHR ''.'') (''copies.'' @ n @ ''._id'') = [''copies'', n, ''_id'']"
proof -
  have "split_on (CHR ''.'') (''copies'' @ CHR ''.'' # (n @ CHR ''.'' # ''_id'')) =
      ''copies'' # split_on (CHR ''.'') (n @ CHR ''.'' # ''_id'')"
    by (rule split_on_prefix) simp
  also have "split_on (CHR ''.'') (n @ CHR ''.'' # ''_id'') = n # split_on (CHR ''.'') ''_id''"
    using assms by (rule split_on_prefix)
  also have "split_on (CHR ''.'') ''_id'' = [''_id'']"
    by (rule split_on_no_separator) simp
  finally show ?thesis by simp
qed

lemma lookup_copies:
  "lookup (map (\<lambda>(k, c). (k, copy_value c)) ps) k =
     (case map_of ps k of None \<Rightarrow> JUndefined | Some c \<Rightarrow> copy_value c)"
  by (induction ps) (auto simp: lookup_def)

text \<open>
  For a store whose name holds no dot, the selector the handlers build matches exactly
  the records whose \<open>copies\<close> has a descriptor of id \<open>i\<close> under that name.
\<close>

lemma matches_copy_path:
  assumes "CHR ''.'' \<notin> set n"
  shows "matches (By_path (''copies.'' @ n @ ''._id'') i) r =
     (case map_of (copies r) n of None \<Rightarrow> False | Some c \<Rightarrow> cid c = i)"
proof -
  have "matches (By_path (''copies.'' @ n @ ''._id'') i) r =
      (path_get [''copies'', n, ''_id''] (doc_value r) = JStr i)"
    by (simp only: matches.simps split_copies_path [OF assms])
  also have "path_get [''copies'', n, ''_id''] (doc_value r) =
      path_get [''_id''] (case map_of (copies r) n of None \<Rightarrow> JUndefined
                          | Some c \<Rightarrow> copy_value c)"
    by (simp add: doc_value_def lookup_copies)
  also have "(\<dots> = JStr i) = (case map_of (copies r) n of None \<Rightarrow> False | Some c \<Rightarrow> cid c = i)"
    by (cases "map_of (copies r) n") (simp_all add: copy_value_def)
  finally show ?thesis .
qed

text \<open>
  A dot in the store's name sends the path elsewhere: no descriptor has an object under
  one of its keys, so no record matches, whatever its \<open>copies\<close> holds.
\<close>

lemma no_match_for_dotted_name:
  "\<not> matches (By_path (''copies.'' @ (a @ CHR ''.'' # b) @ ''._id'') i) r"
proof -
  obtain ks where ks: "split_on (CHR ''.'') ((a @ CHR ''.'' # b) @ ''._id'') = ks"
    "2 < length ks"
  proof
    show "split_on (CHR ''.'') ((a @ CHR ''.'' # b) @ ''._id'') =
        split_on (CHR ''.'') ((a @ CHR ''.'' # b) @ ''._id'')" ..
    have n: "1 < length (split_on (CHR ''.'') (x @ CHR ''.'' # y))" for x y
      by (induction x) (auto split: list.splits)
    have "1 < length (split_on (CHR ''.'') (b @ CHR ''.'' # ''_id''))" by (rule n)
    then have "2 < length (split_on (CHR ''.'') (a @ CHR ''.'' # (b @ CHR ''.'' # ''_id'')))"
      by (induction a) (auto split: list.splits)
    then show "2 < length (split_on (CHR ''.'') ((a @ CHR ''.'' # b) @ ''._id''))" by simp
  qed
  then obtain k1 k2 k3 rest where k: "ks = k1 # k2 # k3 # rest"
    by (cases ks; cases "tl ks"; cases "tl (tl ks)") auto
  have p: "split_on (CHR ''.'') (''copies.'' @ (a @ CHR ''.'' # b) @ ''._id'') = ''copies'' # ks"
    using split_on_prefix [of "CHR ''.''" "''copies''" "(a @ CHR ''.'' # b) @ ''._id''"] ks(1)
    by simp
  have "path_get (''copies'' # k1 # k2 # k3 # rest) (doc_value r) =
      path_get (k2 # k3 # rest) (case map_of (copies r) k1 of None \<Rightarrow> JUndefined
                          | Some c \<Rightarrow> copy_value c)"
    by (simp add: doc_value_def lookup_copies)
  also have "\<dots> \<noteq> JStr i"
    by (cases "map_of (copies r) k1") (simp_all add: copy_value_def)
  finally show ?thesis
    by (simp only: matches.simps p k) simp
qed

text \<open>
  Whatever the name of the store, a document the selector matches has a descriptor of
  that id under the store's name.
\<close>

lemma matches_has_copy_id:
  assumes "matches (By_path (''copies.'' @ n @ ''._id'') i) r"
  shows "has_copy_id n i r"
proof (cases "CHR ''.'' \<in> set n")
  case True
  then obtain a b where "n = a @ CHR ''.'' # b"
    by (auto dest: split_list)
  with assms no_match_for_dotted_name [of a b i r] show ?thesis by simp
next
  case False
  then have "matches (By_path (''copies.'' @ n @ ''._id'') i) r = has_copy_id n i r"
    unfolding has_copy_id_def by (rule matches_copy_path)
  with assms show ?thesis by (simp only:)
qed

declare matches.simps(2) [simp del]



lemma update_first_set:
  "x \<in> set (update_first P g xs) \<Longrightarrow> x \<in> set xs \<or> (\<exists>y\<in>set xs. x = g y)"
  by (induction xs) (auto split: if_splits)

lemma apply_set_fileInfo:
  "apply_modifier (set_fileInfo
      \<lparr> fname = iname nfo, ftype = itype nfo, fsize = isize nfo, futime = iutime nfo,
        copies = [(sname store, \<lparr> cid = storeId, cname = iname nfo, ctype = itype nfo,
                                  csize = isize nfo, cutime = iutime nfo \<rparr>)] \<rparr>)
   = (\<lambda>r. synced_record store storeId nfo (fid r))"
  by (rule ext) (simp add: apply_modifier_def set_fileInfo_def synced_record_def)

lemma sync_insert_eq:
  "sync_insert store newId storeId nfo buf st =
     st\<lparr> docs := docs st @ [synced_record store storeId nfo newId],
         handed_to_worker := handed_to_worker st @ [(newId, buf)] \<rparr>"
  by (simp add: sync_insert_def collection_insert_def FS_File_def setDataFromBuffer_def
      synced_record_def)

lemma sync_update_eq:
  "sync_update store storeId nfo st =
     (case findOne (By_path (''copies.'' @ sname store @ ''._id'') storeId) st of
        None \<Rightarrow> st
      | Some fsFile \<Rightarrow>
          st\<lparr> docs := update_first (\<lambda>r. fid r = fid fsFile)
                  (\<lambda>r. synced_record store storeId nfo (fid r)) (docs st) \<rparr>)"
proof -
  have m: "matches (By_id i) = (\<lambda>r. fid r = i)" for i
    by (rule ext) simp
  show ?thesis
    by (simp add: sync_update_def file_update_def apply_set_fileInfo m split: option.splits)
qed

lemma copy_current_synced: "copy_current (sname store) storeId (synced_record store storeId nfo i)"
  by (simp add: copy_current_def synced_record_def)

text \<open>
  C4. The insert handler appends one document to the collection: its name, type, size
  and utime are those of \<open>info\<close>, its \<open>copies\<close> has the single entry of the reporting
  store, a descriptor with id \<open>storeId\<close> and the metadata of \<open>info\<close>; the buffer is
  the content handed over with the new document. Every other document is untouched.
\<close>

theorem sync_insert_creates_record:
  "sync_insert store newId storeId nfo buf st =
     st\<lparr> docs := docs st @
            [\<lparr> fname = iname nfo, ftype = itype nfo, fsize = isize nfo, futime = iutime nfo,
               copies = [(sname store, \<lparr> cid = storeId, cname = iname nfo, ctype = itype nfo,
                                         csize = isize nfo, cutime = iutime nfo \<rparr>)],
               fid = newId \<rparr>],
         handed_to_worker := handed_to_worker st @ [(newId, buf)] \<rparr>"
  by (simp add: sync_insert_eq synced_record_def)



text \<open>
  C6. When no document has, under the name of the reporting store, a copy descriptor of
  id \<open>storeId\<close>, the update handler and the remove handler return the state they
  were given, whatever the name of the store: nothing is created, changed or deleted,
  and neither handler has a branch that throws.
\<close>

theorem sync_miss_is_noop:
  assumes "\<forall>r\<in>set (docs st). \<not> has_copy_id (sname store) storeId r"
  shows "sync_update store storeId nfo st = st \<and> sync_remove store storeId st = st"
proof -
  have n: "\<forall>r\<in>set (docs st). \<not> matches (By_path (''copies.'' @ sname store @ ''._id'') storeId) r"
  proof (intro ballI notI)
    fix r
    assume r: "r \<in> set (docs st)"
      and "matches (By_path (''copies.'' @ sname store @ ''._id'') storeId) r"
    then have "has_copy_id (sname store) storeId r" by (rule_tac matches_has_copy_id)
    with assms r show False by simp
  qed
  then have "findOne (By_path (''copies.'' @ sname store @ ''._id'') storeId) st = None"
    by (simp add: findOne_def find_None_iff)
  then have "sync_update store storeId nfo st = st"
    by (simp add: sync_update_def)
  moreover from n have "sync_remove store storeId st = st"
    by (simp add: sync_remove_def collection_remove_def)
  ultimately show ?thesis by simp
qed

text \<open>
  C9. The document the insert handler appends, and every document that the insert or the
  update handler leaves in the collection and that was not there before, carries under the
  reporting store's name a descriptor whose id is \<open>storeId\<close> and whose name, type, size
  and utime equal the document's own.
\<close>

theorem synced_copy_is_current:
  "copy_current (sname store) storeId (last (docs (sync_insert store newId storeId nfo buf st))) \<and>
   (\<forall>r\<in>set (docs (sync_insert store newId storeId nfo buf st)).
      r \<in> set (docs st) \<or> copy_current (sname store) storeId r) \<and>
   (\<forall>r\<in>set (docs (sync_update store storeId nfo st)).
      r \<in> set (docs st) \<or> copy_current (sname store) storeId r)"
proof (intro conjI ballI)
  show "copy_current (sname store) storeId (last (docs (sync_insert store newId storeId nfo buf st)))"
    by (simp add: sync_insert_eq copy_current_synced)
next
  fix r assume "r \<in> set (docs (sync_insert store newId storeId nfo buf st))"
  then show "r \<in> set (docs st) \<or> copy_current (sname store) storeId r"
    by (auto simp: sync_insert_eq copy_current_synced)
next
  fix r assume "r \<in> set (docs (sync_update store storeId nfo st))"
  then show "r \<in> set (docs st) \<or> copy_current (sname store) storeId r"
    by (auto simp: sync_update_eq copy_current_synced split: option.splits
        dest!: update_first_set)
qed

lemma ex_matches [simp]:
  "matches (By_path ''copies.s3._id'' ''k1'') ex_record1"
  "\<not> matches (By_path ''copies.s3._id'' ''k1'') ex_record2"
  "\<not> matches (By_path ''copies.s3._id'' ''zz'') ex_record1"
  "\<not> matches (By_path ''copies.s3._id'' ''zz'') ex_record2"
proof -
  have n: "CHR ''.'' \<notin> set ''s3''" by simp
  have p: "''copies.s3._id'' = ''copies.'' @ ''s3'' @ ''._id''" by simp
  show "matches (By_path ''copies.s3._id'' ''k1'') ex_record1"
    "\<not> matches (By_path ''copies.s3._id'' ''k1'') ex_record2"
    "\<not> matches (By_path ''copies.s3._id'' ''zz'') ex_record1"
    "\<not> matches (By_path ''copies.s3._id'' ''zz'') ex_record2"
    unfolding p matches_copy_path [OF n]
    by (simp_all add: ex_record1_def ex_record2_def ex_copy_def)
qed

lemma ex_no_copy_id:
  "\<not> has_copy_id ''s3'' ''zz'' ex_record1" "\<not> has_copy_id ''s3'' ''zz'' ex_record2"
  by (simp_all add: has_copy_id_def ex_record1_def ex_record2_def ex_copy_def)

theorem sync_miss_is_noop_witness:
  "docs ex_state = [ex_record2, ex_record1] \<and>
   \<not> has_copy_id (sname ex_store) ''zz'' ex_record1 \<and>
   \<not> has_copy_id (sname ex_store) ''zz'' ex_record2 \<and>
   sync_update ex_store ''zz'' ex_info ex_state = ex_state \<and>
   sync_remove ex_store ''zz'' ex_state = ex_state"
proof -
  have h: "\<forall>r\<in>set (docs ex_state). \<not> has_copy_id (sname ex_store) ''zz'' r"
    by (simp add: ex_state_def ex_store_def ex_no_copy_id)
  from sync_miss_is_noop [OF h, of ex_info] show ?thesis
    by (simp add: ex_store_def ex_no_copy_id) (simp add: ex_state_def)
qed

lemma ex_docs: "docs ex_state = [ex_record2, ex_record1]"
  by (simp add: ex_state_def)


lemma ex_sync_update:
  "docs (sync_update ex_store ''k1'' ex_info ex_state) =
      [ex_record2, synced_record ex_store ''k1'' ex_info ''id1'']"
  by (simp add: sync_update_eq findOne_def ex_docs ex_store_def)
    (simp add: ex_record1_def ex_record2_def)



theorem synced_copy_is_current_witness:
  "docs (sync_update ex_store ''k1'' ex_info ex_state) =
     [ex_record2, synced_record ex_store ''k1'' ex_info ''id1''] \<and>
   synced_record ex_store ''k1'' ex_info ''id1'' \<notin> set (docs ex_state) \<and>
   copy_current (sname ex_store) ''k1'' (synced_record ex_store ''k1'' ex_info ''id1'')"
proof -
  let ?r = "synced_record ex_store ''k1'' ex_info ''id1''"
  have new: "?r \<notin> set (docs ex_state)"
    by (simp add: ex_docs) (simp add: synced_record_def ex_record1_def ex_record2_def ex_info_def)
  have "?r \<in> set (docs (sync_update ex_store ''k1'' ex_info ex_state))"
    by (simp add: ex_sync_update)
  with synced_copy_is_current [of ex_store "''k1''" "''id3''" ex_info "[]" ex_state]
  have "?r \<in> set (docs ex_state) \<or> copy_current (sname ex_store) ''k1'' ?r"
    by blast
  with new ex_sync_update show ?thesis by blast
qed

section \<open>The normalised filter\<close>

lemma objlike_cases: "objlike f \<Longrightarrow> (\<exists>ps. f = JObj ps) \<or> (\<exists>es ps. f = JArr es ps)"
  by (cases f) (simp_all add: objlike_def)

lemma get_objlike: "objlike f \<Longrightarrow> get_prop f k = Inr (jget f k)"
  by (auto dest!: objlike_cases simp: jget_def)

lemma set_objlike: "objlike f \<Longrightarrow> set_prop f k v = Inr (put f k v)"
  by (auto dest!: objlike_cases)

lemma jget_put: "objlike f \<Longrightarrow> jget (put f k v) k' = (if k = k' then v else jget f k')"
  by (auto dest!: objlike_cases simp: jget_def)

lemma objlike_put [simp]: "objlike (put f k v) = objlike f"
  by (cases f) (simp_all add: objlike_def)

lemma isPlainObject_put [simp]: "isPlainObject (put f k v) = isPlainObject f"
  by (cases f) simp_all

lemma put_put [simp]: "put (put f k v) k w = put f k w"
  by (cases f) simp_all




lemma has_key_put_same: "objlike f \<Longrightarrow> has_key (put f k v) k"
  by (auto dest!: objlike_cases simp: update_conv')


lemma put_same: "has_key f k \<Longrightarrow> put f k (jget f k) = f"
  by (cases f) (auto simp: jget_def lookup_def update_triv)

lemma plain_truthy: "isPlainObject a \<Longrightarrow> truthy a"
  by (cases a) simp_all

lemma array_truthy: "isArray a \<Longrightarrow> truthy a"
  by (cases a) simp_all

lemma plain_objlike: "isPlainObject a \<Longrightarrow> objlike a"
  by (simp add: objlike_def)

text \<open>The steps on an object or array, as pure updates.\<close>

lemma objlike_upd_if [simp]: "objlike (upd_if c h k g) = objlike g"
  by (simp add: upd_if_def)

lemma jget_upd_if:
  "objlike g \<Longrightarrow> jget (upd_if c h k g) k' =
     (if k' = k \<and> \<not> c (jget g k) then h (jget g k) else jget g k')"
  by (auto simp: upd_if_def jget_put)



lemma default_object_objlike:
  "objlike f \<Longrightarrow> default_object k f = Inr (upd_if isPlainObject (\<lambda>a. JObj []) k f)"
  by (auto simp: default_object_def get_objlike set_objlike upd_if_def plain_truthy)

lemma default_maxSize_objlike:
  "objlike f \<Longrightarrow>
   default_maxSize f = Inr (upd_if (\<lambda>m. truthy m \<and> isNumber m) (\<lambda>m. JNull) ''maxSize'' f)"
  by (auto simp: default_maxSize_def get_objlike set_objlike upd_if_def)

lemma normalize_extensions_objlike:
  assumes "objlike f" "isPlainObject (jget f k)"
  shows "normalize_extensions k f =
     bind (norm_ext (jget (jget f k) ''extensions''))
       (\<lambda>e. Inr (upd_if (\<lambda>a. False) (\<lambda>a. put a ''extensions'' e) k f))"
proof -
  from assms(2) have a: "objlike (jget f k)" by (rule plain_objlike)
  show ?thesis
  proof (cases "jget (jget f k) ''extensions''")
    case (JArr es ps)
    with assms a show ?thesis
      by (cases "lower_all es")
        (simp_all add: normalize_extensions_def get_objlike set_objlike norm_ext_def upd_if_def)
  qed (use assms a in \<open>simp_all add: normalize_extensions_def get_objlike set_objlike
        norm_ext_def upd_if_def\<close>)
qed

lemma default_contentTypes_objlike:
  assumes "objlike f" "isPlainObject (jget f k)"
  shows "default_contentTypes k f =
     Inr (upd_if (\<lambda>a. isArray (jget a ''contentTypes''))
            (\<lambda>a. put a ''contentTypes'' (JArr [] [])) k f)"
proof -
  from assms(2) have a: "objlike (jget f k)" by (rule plain_objlike)
  with assms show ?thesis
    by (auto simp: default_contentTypes_def get_objlike set_objlike upd_if_def array_truthy)
qed

lemma normalize_filter_objlike:
  assumes o: "objlike f"
  shows "normalize_filter f =
     bind (norm_ext (jget (side f ''allow'') ''extensions'')) (\<lambda>ea.
     bind (norm_ext (jget (side f ''deny'') ''extensions'')) (\<lambda>ed.
       Inr (normal_form f ea ed)))"
proof -
  define f1 where "f1 = upd_if isPlainObject (\<lambda>a. JObj []) ''allow'' f"
  define f2 where "f2 = upd_if isPlainObject (\<lambda>a. JObj []) ''deny'' f1"
  define f3 where "f3 = upd_if (\<lambda>m. truthy m \<and> isNumber m) (\<lambda>m. JNull) ''maxSize'' f2"
  have o3: "objlike f1" "objlike f2" "objlike f3"
    using o by (simp_all add: f1_def f2_def f3_def)
  have a3: "jget f3 ''allow'' = side f ''allow''"
    using o o3 by (simp add: f3_def f2_def f1_def jget_upd_if side_def)
  have d3: "jget f3 ''deny'' = side f ''deny''"
    using o o3 by (simp add: f3_def f2_def f1_def jget_upd_if side_def)
  have ps: "isPlainObject (side f k)" for k
    by (simp add: side_def)
  have t: "truthy f" using o by (auto dest!: objlike_cases)
  have s3: "normalize_filter f =
        bind (normalize_extensions ''allow'' f3) (\<lambda>f4.
        bind (default_contentTypes ''allow'' f4) (\<lambda>f5.
        bind (normalize_extensions ''deny'' f5) (\<lambda>f6.
        default_contentTypes ''deny'' f6)))"
    using o o3 t
    by (simp add: normalize_filter_def default_object_objlike default_maxSize_objlike
        f1_def f2_def f3_def)
  show ?thesis
  proof (cases "norm_ext (jget (side f ''allow'') ''extensions'')")
    case (Inl e)
    with o3 a3 ps show ?thesis
      by (simp add: s3 normalize_extensions_objlike)
  next
    case (Inr ea)
    define f4 where "f4 = upd_if (\<lambda>a. False) (\<lambda>a. put a ''extensions'' ea) ''allow'' f3"
    define f5 where "f5 = upd_if (\<lambda>a. isArray (jget a ''contentTypes''))
                 (\<lambda>a. put a ''contentTypes'' (JArr [] [])) ''allow'' f4"
    have o5: "objlike f4" "objlike f5" using o3 by (simp_all add: f4_def f5_def)
    have a4: "isPlainObject (jget f4 ''allow'')"
      using o3 ps by (simp add: f4_def jget_upd_if a3)
    have d5: "jget f5 ''deny'' = side f ''deny''"
      using o3 o5 by (simp add: f5_def f4_def jget_upd_if d3)
    have s5: "normalize_filter f =
        bind (normalize_extensions ''deny'' f5) (\<lambda>f6. default_contentTypes ''deny'' f6)"
      using Inr o3 o5 a3 a4 ps
      by (simp add: s3 normalize_extensions_objlike default_contentTypes_objlike f4_def f5_def)
    show ?thesis
    proof (cases "norm_ext (jget (side f ''deny'') ''extensions'')")
      case (Inl e)
      with Inr o5 d5 ps show ?thesis
        by (simp add: s5 normalize_extensions_objlike)
    next
      case ed: (Inr ed)
      define f6 where "f6 = upd_if (\<lambda>a. False) (\<lambda>a. put a ''extensions'' ed) ''deny'' f5"
      have o6: "objlike f6" using o5 by (simp add: f6_def)
      have d6: "isPlainObject (jget f6 ''deny'')"
        using o5 ps by (simp add: f6_def jget_upd_if d5)
      from Inr ed o5 o6 d5 d6 ps show ?thesis
        by (simp add: s5 normalize_extensions_objlike default_contentTypes_objlike
            normal_form_def Let_def f1_def f2_def f3_def f4_def f5_def f6_def)
    qed
  qed
qed

lemma normalize_filter_falsy: "\<not> truthy f \<Longrightarrow> normalize_filter f = Inr f"
  by (simp add: normalize_filter_def)

lemma normalize_filter_primitive:
  "truthy f \<Longrightarrow> \<not> objlike f \<Longrightarrow> normalize_filter f = Inl TypeError"
  by (cases f)
    (simp_all add: objlike_def normalize_filter_def default_object_def default_maxSize_def
      normalize_extensions_def)

lemma lower_all_strings:
  "list_all isString es \<Longrightarrow> lower_all es = Inr (map lower_value es)"
  by (induction es rule: lower_all.induct) simp_all

lemma lower_all_Inr:
  "lower_all es = Inr es' \<Longrightarrow> list_all isString es \<and> es' = map lower_value es"
proof (induction es arbitrary: es' rule: lower_all.induct)
  case (2 s es)
  then show ?case by (cases "lower_all es") auto
qed simp_all

lemma lower_value_idem: "lower_value (lower_value v) = lower_value v"
  by (cases v) (simp_all add: toLowerCase_idem)

lemma lower_all_lower_value: "lower_all (map lower_value es) = lower_all es"
proof (induction es rule: lower_all.induct)
  case (2 s es)
  then show ?case by (simp add: toLowerCase_idem)
qed simp_all

lemma norm_ext_strings: "strings_only e \<Longrightarrow> norm_ext e = Inr (lowered e)"
  by (cases e) (simp_all add: strings_only_def norm_ext_def lowered_def lower_all_strings)

lemma norm_ext_Inr: "norm_ext e = Inr e' \<Longrightarrow> strings_only e \<and> e' = lowered e"
proof (cases e)
  case (JArr es ps)
  assume "norm_ext e = Inr e'"
  with JArr show ?thesis
    by (cases "lower_all es") (auto simp: norm_ext_def strings_only_def lowered_def dest: lower_all_Inr)
qed (auto simp: norm_ext_def strings_only_def lowered_def)

lemma isString_map: "list_all isString es \<Longrightarrow> \<exists>xs. es = map JStr xs"
proof (induction es)
  case (Cons v es)
  then obtain xs where "es = map JStr xs" by auto
  moreover from Cons.prems obtain s where "v = JStr s" by (cases v) auto
  ultimately have "v # es = map JStr (s # xs)" by simp
  then show ?case by (rule exI)
qed simp

lemma side_plain [simp]: "isPlainObject (side f k)"
  by (simp add: side_def)

lemma side_objlike [simp]: "objlike (side f k)"
  by (simp add: plain_objlike)

lemma normal_form_jget:
  assumes o: "objlike f"
  shows "jget (normal_form f ea ed) k =
     (if k = ''allow'' then side_result (side f ''allow'') ea
      else if k = ''deny'' then side_result (side f ''deny'') ed
      else if k = ''maxSize'' then
        (if truthy (jget f ''maxSize'') \<and> isNumber (jget f ''maxSize'')
         then jget f ''maxSize'' else JNull)
      else jget f k)"
proof -
  define f1 where "f1 = upd_if isPlainObject (\<lambda>a. JObj []) ''allow'' f"
  define f2 where "f2 = upd_if isPlainObject (\<lambda>a. JObj []) ''deny'' f1"
  define f3 where "f3 = upd_if (\<lambda>m. truthy m \<and> isNumber m) (\<lambda>m. JNull) ''maxSize'' f2"
  define f4 where "f4 = upd_if (\<lambda>a. False) (\<lambda>a. put a ''extensions'' ea) ''allow'' f3"
  define f5 where "f5 = upd_if (\<lambda>a. isArray (jget a ''contentTypes''))
                 (\<lambda>a. put a ''contentTypes'' (JArr [] [])) ''allow'' f4"
  define f6 where "f6 = upd_if (\<lambda>a. False) (\<lambda>a. put a ''extensions'' ed) ''deny'' f5"
  define f7 where "f7 = upd_if (\<lambda>a. isArray (jget a ''contentTypes''))
                 (\<lambda>a. put a ''contentTypes'' (JArr [] [])) ''deny'' f6"
  have nf: "normal_form f ea ed = f7"
    by (simp add: normal_form_def Let_def f1_def f2_def f3_def f4_def f5_def f6_def f7_def)
  have oo: "objlike f1" "objlike f2" "objlike f3" "objlike f4" "objlike f5" "objlike f6"
    using o by (simp_all add: f1_def f2_def f3_def f4_def f5_def f6_def)
  have j3: "jget f3 k' =
     (if k' = ''allow'' then side f ''allow''
      else if k' = ''deny'' then side f ''deny''
      else if k' = ''maxSize'' then
        (if truthy (jget f ''maxSize'') \<and> isNumber (jget f ''maxSize'')
         then jget f ''maxSize'' else JNull)
      else jget f k')" for k'
    using o oo by (simp add: f3_def f2_def f1_def jget_upd_if side_def)
  have j5: "jget f5 k' = (if k' = ''allow'' then side_result (side f ''allow'') ea else jget f3 k')"
    for k'
    using oo by (simp add: f5_def f4_def jget_upd_if j3 side_result_def)
  have j7: "jget f7 k' = (if k' = ''deny'' then side_result (side f ''deny'') ed else jget f5 k')"
    for k'
    using oo by (simp add: f7_def f6_def jget_upd_if j5 j3 side_result_def)
  show ?thesis
    unfolding nf by (simp add: j7 j5 j3)
qed








section \<open>Construction: the filter option\<close>

lemma jget_JObj [simp]: "jget (JObj ps) k = lookup ps k"
  by (simp add: jget_def)

lemma jget_JArr [simp]: "jget (JArr es ps) k = lookup ps k"
  by (simp add: jget_def)

lemma jget_not_objlike [simp]:
  "jget JUndefined k = JUndefined" "jget JNull k = JUndefined" "jget (JBool b) k = JUndefined"
  "jget (JNum n) k = JUndefined" "jget (JStr s) k = JUndefined"
  by (simp_all add: jget_def)

lemma extend_options_Some:
  "extend_options default_options (Some a) =
     \<lparr> opt_filter = (case arg_filter a of None \<Rightarrow> JNull | Some v \<Rightarrow> v),
       opt_stores = (case arg_stores a of None \<Rightarrow> [] | Some v \<Rightarrow> v),
       opt_chunkSize = (case arg_chunkSize a of None \<Rightarrow> 131072 | Some v \<Rightarrow> v) \<rparr>"
  by (simp add: extend_options_def default_options_def split: option.splits)

text \<open>Construction with at least one store, as a function of the normalised filter.\<close>

lemma FS_Collection_filter:
  assumes "arg_stores a = Some (s # ss)"
  shows "fst (FS_Collection ev name (Some a) rt) =
     (case normalize_filter (case arg_filter a of None \<Rightarrow> JNull | Some v \<Rightarrow> v) of
        Inl e \<Rightarrow> Inl e
      | Inr g \<Rightarrow> Inr (constructed ev name a g))"
  using assms
  by (simp add: FS_Collection_def extend_options_Some Let_def constructed_def split: sum.splits)


section \<open>Letter case\<close>

lemma letter_pairs_lower:
  "list_all (\<lambda>p. lower_char (fst p) = snd p \<and> lower_char (snd p) = snd p) letter_pairs"
  by code_simp

lemma letter_pairs_capital:
  "list_all (\<lambda>p. capital_code (of_char (fst p))) letter_pairs"
  by code_simp

lemma capitals_listed:
  "list_all (\<lambda>n. char_of n \<in> set (map fst letter_pairs))
     ([65..<91] @ [192..<215] @ [216..<223] :: nat list)"
  by code_simp

lemma is_upper_iff: "is_upper c = capital_code (of_char c)"
proof
  assume "is_upper c"
  then obtain d where "(c, d) \<in> set letter_pairs"
    by (auto simp: is_upper_def)
  with letter_pairs_capital show "capital_code (of_char c)"
    by (auto simp: list_all_iff)
next
  define n where "n = (of_char c :: nat)"
  assume "capital_code (of_char c)"
  then have "n \<in> {65..<91} \<union> {192..<215} \<union> {216..<223}"
    by (auto simp: capital_code_def n_def)
  then have "n \<in> set ([65..<91] @ [192..<215] @ [216..<223])"
    by (simp only: set_append set_upt Un_assoc)
  with capitals_listed have "char_of n \<in> set (map fst letter_pairs)"
    unfolding list_all_iff by (rule bspec)
  moreover have "char_of n = c" by (simp add: n_def)
  ultimately show "is_upper c" by (simp add: is_upper_def)
qed

lemma lower_char_capital:
  "lower_char c = (if capital_code (of_char c) then char_of (of_char c + 32 :: nat) else c)"
  by (simp add: lower_char_def capital_code_def Let_def)

lemma lower_char_not_upper: "\<not> is_upper (lower_char c)"
  by (auto simp: is_upper_iff lower_char_capital capital_code_def)

lemma pair_lower: "(c, d) \<in> set letter_pairs \<Longrightarrow> lower_char c = d \<and> lower_char d = d"
  using letter_pairs_lower by (auto simp: list_all_iff)

lemma lower_char_same_letter: "same_letter c (lower_char c)"
proof (cases "is_upper c")
  case True
  then obtain d where d: "(c, d) \<in> set letter_pairs"
    by (auto simp: is_upper_def)
  then have "lower_char c = d" by (simp add: pair_lower)
  with d show ?thesis by (simp add: same_letter_def)
next
  case False
  then have "lower_char c = c"
    by (simp add: is_upper_iff lower_char_capital)
  then show ?thesis by (simp add: same_letter_def)
qed



lemma toLowerCase_variant: "case_variant s (toLowerCase s)"
  unfolding case_variant_def toLowerCase_def
  by (induction s) (simp_all add: lower_char_same_letter)

lemma toLowerCase_no_upper: "no_upper (toLowerCase s)"
  unfolding no_upper_def toLowerCase_def
  by (induction s) (simp_all add: lower_char_not_upper)


section \<open>The normalised filter in terms of the supplied one\<close>

lemma lower_value_lowercase_of: "isString v \<Longrightarrow> lowercase_of v (lower_value v)"
  by (cases v) (simp_all add: toLowerCase_variant toLowerCase_no_upper)

lemma lowercase_of_map:
  "list_all isString es \<Longrightarrow> list_all2 lowercase_of es (map lower_value es)"
  by (induction es) (simp_all add: lower_value_lowercase_of)

lemma lowered_from_lowered: "strings_only e \<Longrightarrow> lowered_from e (lowered e)"
  by (cases e) (simp_all add: strings_only_def lowered_from_def lowered_def lowercase_of_map)



lemma norm_ext_not_strings: "\<not> strings_only e \<Longrightarrow> norm_ext e = Inl TypeError"
proof (cases "norm_ext e")
  case (Inl x)
  then have "x = TypeError"
    by (cases e) (auto simp: norm_ext_def dest!: bind_Inl dest: lower_all_error)
  with Inl show ?thesis by simp
next
  case (Inr e')
  assume "\<not> strings_only e"
  with Inr show ?thesis by (auto dest: norm_ext_Inr)
qed

lemma side_result_normalized:
  assumes "isPlainObject a" "strings_only (jget a ''extensions'')"
  shows "normalized_side a (side_result a (lowered (jget a ''extensions'')))"
proof -
  from assms(1) have o: "objlike a" by (rule plain_objlike)
  then show ?thesis
    using assms
    by (simp add: normalized_side_def side_result_def jget_put listed_def lowered_from_lowered)
qed

lemma normalize_filter_shape:
  assumes "objlike f"
    and "strings_only (jget (side f ''allow'') ''extensions'')"
    and "strings_only (jget (side f ''deny'') ''extensions'')"
  shows "\<exists>g. normalize_filter f = Inr g \<and> normalized_from f g"
proof -
  let ?g = "normal_form f (lowered (jget (side f ''allow'') ''extensions''))
              (lowered (jget (side f ''deny'') ''extensions''))"
  from assms have "normalize_filter f = Inr ?g"
    by (simp add: normalize_filter_objlike norm_ext_strings)
  moreover from assms have "normalized_from f ?g"
    by (simp add: normalized_from_def normal_form_jget side_result_normalized)
  ultimately show ?thesis by (rule_tac x = ?g in exI) simp
qed

lemma normalize_filter_rejects:
  assumes "objlike f"
    and "\<not> (strings_only (jget (side f ''allow'') ''extensions'') \<and>
            strings_only (jget (side f ''deny'') ''extensions''))"
  shows "normalize_filter f = Inl TypeError"
proof (cases "strings_only (jget (side f ''allow'') ''extensions'')")
  case False
  then show ?thesis
    by (simp add: normalize_filter_objlike [OF assms(1)] norm_ext_not_strings)
next
  case True
  with assms(2) have "\<not> strings_only (jget (side f ''deny'') ''extensions'')" by simp
  with True show ?thesis
    by (simp add: normalize_filter_objlike [OF assms(1)] norm_ext_not_strings norm_ext_strings)
qed

lemma normalize_filter_well_shaped:
  "normalize_filter f = (if well_shaped f
      then (if truthy f
            then Inr (normal_form f (lowered (jget (side f ''allow'') ''extensions''))
                        (lowered (jget (side f ''deny'') ''extensions'')))
            else Inr f)
      else Inl TypeError)"
proof (cases "truthy f")
  case False
  then show ?thesis by (simp add: well_shaped_def normalize_filter_falsy)
next
  case t: True
  show ?thesis
  proof (cases "objlike f")
    case False
    with t show ?thesis by (simp add: well_shaped_def normalize_filter_primitive)
  next
    case True
    show ?thesis
    proof (cases "well_shaped f")
      case w: True
      with t True show ?thesis
        by (simp add: well_shaped_def normalize_filter_objlike norm_ext_strings)
    next
      case False
      with t True show ?thesis
        by (simp add: well_shaped_def normalize_filter_rejects)
    qed
  qed
qed






section \<open>The filter option: defaults, rejection and letter case\<close>

lemma same_letter_lower_unique: "same_letter c d \<Longrightarrow> \<not> is_upper d \<Longrightarrow> d = lower_char c"
proof -
  assume s: "same_letter c d" and u: "\<not> is_upper d"
  from u have d: "lower_char d = d"
    by (simp add: is_upper_iff lower_char_capital)
  from s consider "c = d" | "(c, d) \<in> set letter_pairs" | "(d, c) \<in> set letter_pairs"
    by (auto simp: same_letter_def)
  then show ?thesis
  proof cases
    case 1
    with d show ?thesis by simp
  next
    case 2
    then show ?thesis by (simp add: pair_lower)
  next
    case 3
    then have "is_upper d" by (force simp: is_upper_def)
    with u show ?thesis by simp
  qed
qed

lemma lowercase_unique: "case_variant s t \<Longrightarrow> no_upper t \<Longrightarrow> t = toLowerCase s"
  unfolding case_variant_def no_upper_def toLowerCase_def
  by (induction rule: list_all2_induct) (simp_all add: same_letter_lower_unique)

lemma lowercase_of_unique: "lowercase_of v w \<Longrightarrow> w = lower_value v"
  by (cases v; cases w) (simp_all add: lowercase_unique)

lemma lowercase_of_list_unique: "list_all2 lowercase_of es es' \<Longrightarrow> es' = map lower_value es"
  by (induction rule: list_all2_induct) (simp_all add: lowercase_of_unique)

lemma lowered_from_unique: "lowered_from e e' \<Longrightarrow> e' = lowered e"
  by (cases e; cases e') (auto simp: lowered_from_def lowered_def dest: lowercase_of_list_unique)

text \<open>
  C7, as stated, fails: with the filter \<open>{allow: {extensions: [5]}}\<close> the call of
  \<open>toLowerCase\<close> on the number throws, and with the filter \<open>true\<close> the read of
  \<open>filter.allow.extensions\<close> throws; construction ends in a \<open>TypeError\<close>.
\<close>

theorem malformed_filter_aborts_construction:
  "fst (FS_Collection ex_env ''images'' (Some (ex_arg\<lparr> arg_filter := Some ex_filter_number \<rparr>))
         ex_runtime) = Inl TypeError \<and>
   fst (FS_Collection ex_env ''images'' (Some (ex_arg\<lparr> arg_filter := Some (JBool True) \<rparr>))
         ex_runtime) = Inl TypeError"
proof -
  have 1: "normalize_filter ex_filter_number = Inl TypeError"
    by (simp add: ex_filter_number_def normalize_filter_def default_object_def
        default_maxSize_def normalize_extensions_def)
  have 2: "normalize_filter (JBool True) = Inl TypeError"
    by (simp add: normalize_filter_primitive objlike_def)
  have s: "arg_stores (ex_arg\<lparr> arg_filter := Some v \<rparr>) = Some [\<lparr> sname = ''s3'' \<rparr>, \<lparr> sname = ''local'' \<rparr>]"
    for v by (simp add: ex_arg_def)
  show ?thesis
    by (simp add: FS_Collection_filter [OF s] 1 2)
qed

text \<open>
  C7, amended. With at least one store and a supplied filter: when the filter is falsy,
  or an object or array whose \<open>allow.extensions\<close> and \<open>deny.extensions\<close> hold only
  strings (where \<open>allow\<close> or \<open>deny\<close> is a plain object and the property an array),
  construction succeeds; a falsy filter is kept as it is, and otherwise \<open>allow\<close> and
  \<open>deny\<close> are plain objects (the supplied one, or the empty object for anything else),
  their \<open>extensions\<close> is the supplied array in lower case or the empty list, their
  \<open>contentTypes\<close> the supplied array or the empty list, \<open>maxSize\<close> the supplied
  non-zero number or \<open>null\<close>, and every other property is kept. For every other
  supplied filter construction throws a \<open>TypeError\<close>.
\<close>

theorem filter_defaults_or_TypeError:
  assumes st: "arg_stores a = Some (s # ss)" and fl: "arg_filter a = Some f"
  shows "(well_shaped f \<longrightarrow>
            (\<exists>self rt'. FS_Collection ev name (Some a) rt = (Inr self, rt') \<and>
               (if truthy f then normalized_from f (opt_filter (c_options self))
                else opt_filter (c_options self) = f))) \<and>
         (\<not> well_shaped f \<longrightarrow> fst (FS_Collection ev name (Some a) rt) = Inl TypeError)"
proof (intro conjI impI)
  assume w: "well_shaped f"
  have "\<exists>g. normalize_filter f = Inr g \<and> (if truthy f then normalized_from f g else g = f)"
  proof (cases "truthy f")
    case True
    with w show ?thesis by (simp add: well_shaped_def normalize_filter_shape)
  next
    case False
    then show ?thesis by (simp add: normalize_filter_falsy)
  qed
  then obtain g where g: "normalize_filter f = Inr g"
    and n: "if truthy f then normalized_from f g else g = f" by blast
  from FS_Collection_filter [OF st, of ev name rt] g fl
  obtain self where self: "fst (FS_Collection ev name (Some a) rt) = Inr self"
    and o: "opt_filter (c_options self) = g"
    by (simp add: constructed_def)
  obtain x rt' where "FS_Collection ev name (Some a) rt = (x, rt')"
    by (cases "FS_Collection ev name (Some a) rt")
  with self have "FS_Collection ev name (Some a) rt = (Inr self, rt')" by simp
  with n o show "\<exists>self rt'. FS_Collection ev name (Some a) rt = (Inr self, rt') \<and>
               (if truthy f then normalized_from f (opt_filter (c_options self))
                else opt_filter (c_options self) = f)"
    by auto
next
  assume "\<not> well_shaped f"
  then have "normalize_filter f = Inl TypeError"
    by (simp add: normalize_filter_well_shaped)
  with FS_Collection_filter [OF st, of ev name rt] fl
  show "fst (FS_Collection ev name (Some a) rt) = Inl TypeError" by simp
qed

lemma ex_arg_stores:
  "arg_stores (ex_arg\<lparr> arg_filter := Some v \<rparr>) = Some (\<lparr> sname = ''s3'' \<rparr> # [\<lparr> sname = ''local'' \<rparr>])"
  "arg_filter (ex_arg\<lparr> arg_filter := Some v \<rparr>) = Some v"
  by (simp_all add: ex_arg_def)

theorem filter_defaults_or_TypeError_witness:
  "well_shaped ex_filter \<and>
   (\<exists>self rt'. FS_Collection ex_env ''images'' (Some (ex_arg\<lparr> arg_filter := Some ex_filter \<rparr>))
        ex_runtime = (Inr self, rt') \<and>
     jget (jget (opt_filter (c_options self)) ''allow'') ''extensions'' = JArr [JStr ''png''] [] \<and>
     jget (jget (opt_filter (c_options self)) ''allow'') ''contentTypes'' = JArr [] [] \<and>
     jget (jget (opt_filter (c_options self)) ''deny'') ''extensions'' = JArr [] [] \<and>
     jget (jget (opt_filter (c_options self)) ''deny'') ''contentTypes'' = JArr [] [] \<and>
     jget (opt_filter (c_options self)) ''maxSize'' = JNull) \<and>
   \<not> well_shaped ex_filter_number \<and>
   fst (FS_Collection ex_env ''images'' (Some (ex_arg\<lparr> arg_filter := Some ex_filter_number \<rparr>))
        ex_runtime) = Inl TypeError"
proof -
  have sa: "side ex_filter ''allow'' = JObj [(''extensions'', JArr [JStr ''PNG''] [])]"
    and sd: "side ex_filter ''deny'' = JObj []"
    by (simp_all add: side_def ex_filter_def)
  have w: "well_shaped ex_filter"
    unfolding well_shaped_def sa sd by (simp add: strings_only_def) (simp add: ex_filter_def objlike_def)
  have t: "truthy ex_filter" by (simp add: ex_filter_def)
  have sn: "side ex_filter_number ''allow'' = JObj [(''extensions'', JArr [JNum 5] [])]"
    by (simp add: side_def ex_filter_number_def)
  have nw: "\<not> well_shaped ex_filter_number"
    unfolding well_shaped_def sn by (simp add: strings_only_def) (simp add: ex_filter_number_def)
  note good = filter_defaults_or_TypeError [OF ex_arg_stores, of ex_filter ex_env "''images''"
      ex_runtime, THEN conjunct1, rule_format, OF w]
  note bad = filter_defaults_or_TypeError [OF ex_arg_stores, of ex_filter_number ex_env
      "''images''" ex_runtime, THEN conjunct2, rule_format, OF nw]
  from good t obtain self rt' where
    c: "FS_Collection ex_env ''images'' (Some (ex_arg\<lparr> arg_filter := Some ex_filter \<rparr>)) ex_runtime
          = (Inr self, rt')"
    and n: "normalized_from ex_filter (opt_filter (c_options self))"
    by auto
  from n have na: "normalized_side (JObj [(''extensions'', JArr [JStr ''PNG''] [])])
        (jget (opt_filter (c_options self)) ''allow'')"
    and nd: "normalized_side (JObj []) (jget (opt_filter (c_options self)) ''deny'')"
    and m: "jget (opt_filter (c_options self)) ''maxSize'' = JNull"
    by (simp_all add: normalized_from_def sa sd) (simp add: ex_filter_def)
  from na have "jget (jget (opt_filter (c_options self)) ''allow'') ''extensions'' =
      lowered (JArr [JStr ''PNG''] [])"
    by (auto simp: normalized_side_def dest: lowered_from_unique)
  then have 1: "jget (jget (opt_filter (c_options self)) ''allow'') ''extensions'' =
      JArr [JStr ''png''] []"
    by (simp add: lowered_def toLowerCase_PNG)
  from na have 2: "jget (jget (opt_filter (c_options self)) ''allow'') ''contentTypes'' = JArr [] []"
    by (simp add: normalized_side_def listed_def)
  from nd have "jget (jget (opt_filter (c_options self)) ''deny'') ''extensions'' =
      lowered JUndefined"
    by (auto simp: normalized_side_def dest: lowered_from_unique)
  then have 3: "jget (jget (opt_filter (c_options self)) ''deny'') ''extensions'' = JArr [] []"
    by (simp add: lowered_def)
  from nd have 4: "jget (jget (opt_filter (c_options self)) ''deny'') ''contentTypes'' = JArr [] []"
    by (simp add: normalized_side_def listed_def)
  from c 1 2 3 4 m have "\<exists>self rt'.
     FS_Collection ex_env ''images'' (Some (ex_arg\<lparr> arg_filter := Some ex_filter \<rparr>))
        ex_runtime = (Inr self, rt') \<and>
     jget (jget (opt_filter (c_options self)) ''allow'') ''extensions'' = JArr [JStr ''png''] [] \<and>
     jget (jget (opt_filter (c_options self)) ''allow'') ''contentTypes'' = JArr [] [] \<and>
     jget (jget (opt_filter (c_options self)) ''deny'') ''extensions'' = JArr [] [] \<and>
     jget (jget (opt_filter (c_options self)) ''deny'') ''contentTypes'' = JArr [] [] \<and>
     jget (opt_filter (c_options self)) ''maxSize'' = JNull"
    by (intro exI [of _ self] exI [of _ rt']) simp
  with w nw bad show ?thesis by simp
qed




section \<open>The deny rules and untrusted updates\<close>

lemma ex_collection_constructed:
  "fst (FS_Collection ex_env ''images'' (Some ex_arg) ex_runtime) = Inr ex_collection"
  by (simp add: FS_Collection_def normalize_ex_filter ex_arg_def extend_options_def
      default_options_def Let_def ex_collection_def ex_env_def)

lemma ext_png: "extension_of ''a.png'' = ''png''" "extension_of ''c.png'' = ''png''"
  "extension_of ''a.exe'' = ''exe''"
  by (simp_all add: extension_of_def toLowerCase_def lower_char_def)

lemma allowed_iff_png:
  "fileIsAllowed ex_normalized f = (extension_of (fname f) = ''png'')"
  by (simp add: fileIsAllowed_def ex_normalized_def jget_def Let_def)

lemma deny_update_ignores_modifier:
  "deny_update flt userId doc fs m = deny_update flt userId doc fs' m'"
  by (simp add: deny_update_def)

text \<open>
  C1 fails on the code. The collection is constructed with the filter
  \<open>{allow: {extensions: ["PNG"]}}\<close>, and both stored records pass it. The untrusted
  insert of \<open>a.exe\<close> is denied. The untrusted update \<open>{$set: {name: "a.exe"}}\<close> of the
  record \<open>a.png\<close> is not: the deny rule looks at the stored record only, the update
  commits, and the stored record no longer passes the filter.
\<close>

theorem untrusted_update_escapes_filter:
  "fst (FS_Collection ex_env ''images'' (Some ex_arg) ex_runtime) = Inr ex_collection \<and>
   docs ex_state = [ex_record2, ex_record1] \<and>
   fileIsAllowed (opt_filter (c_options ex_collection)) ex_record1 \<and>
   fileIsAllowed (opt_filter (c_options ex_collection)) ex_record2 \<and>
   untrusted_insert ex_collection True None ''id3'' ex_exe ex_state = Inl AdmissionDenied \<and>
   untrusted_update ex_collection True None ''id1'' ex_rename ex_state =
     Inr (ex_state\<lparr> docs := [ex_record2, ex_record1\<lparr> fname := ''a.exe'' \<rparr>] \<rparr>) \<and>
   \<not> fileIsAllowed (opt_filter (c_options ex_collection)) (ex_record1\<lparr> fname := ''a.exe'' \<rparr>)"
proof -
  have flt: "opt_filter (c_options ex_collection) = ex_normalized"
    by (simp add: ex_collection_def)
  have a1: "fileIsAllowed ex_normalized ex_record1"
    by (simp add: allowed_iff_png ex_record1_def ext_png)
  have a2: "fileIsAllowed ex_normalized ex_record2"
    by (simp add: allowed_iff_png ex_record2_def ext_png)
  have a3: "\<not> fileIsAllowed ex_normalized (ex_record1\<lparr> fname := ''a.exe'' \<rparr>)"
    by (simp add: allowed_iff_png ext_png)
  have a4: "\<not> fileIsAllowed ex_normalized ex_exe"
    by (simp add: allowed_iff_png ext_png ex_exe_def FS_File_def)
  have f: "findOne (By_id ''id1'') ex_state = Some ex_record1"
    by (simp add: findOne_def ex_docs) (simp add: ex_record1_def ex_record2_def)
  have m: "apply_modifier ex_rename ex_record1 = ex_record1\<lparr> fname := ''a.exe'' \<rparr>"
    by (simp add: apply_modifier_def ex_rename_def)
  have u: "file_update ex_record1 ex_rename ex_state =
      ex_state\<lparr> docs := [ex_record2, ex_record1\<lparr> fname := ''a.exe'' \<rparr>] \<rparr>"
    by (simp add: file_update_def ex_docs m) (simp add: ex_record1_def ex_record2_def)
  have upd: "untrusted_update ex_collection True None ''id1'' ex_rename ex_state =
     Inr (ex_state\<lparr> docs := [ex_record2, ex_record1\<lparr> fname := ''a.exe'' \<rparr>] \<rparr>)"
    by (simp add: untrusted_update_def f flt deny_update_def a1 u)
  have ins: "untrusted_insert ex_collection True None ''id3'' ex_exe ex_state = Inl AdmissionDenied"
    by (simp add: untrusted_insert_def flt deny_insert_def a4)
  from ex_collection_constructed ex_docs a1 a2 a3 upd ins flt show ?thesis by simp
qed

end
